theory Spec2Isabelle
  imports Main "HOL-Library.Sublist"
begin

section \<open>Data model of \<^verbatim>\<open>src/App.js\<close>\<close>

text \<open>
  A JavaScript string is held as the bytes of its UTF-8 encoding: a \<open>string\<close> is a list
  of 8-bit characters, and a character beyond ASCII takes two to four of them.

  A player as the service delivers it.  The JavaScript field \<^verbatim>\<open>_id\<close> is called
  \<open>user_id\<close> here, since an identifier cannot start with an underscore.
\<close>

record user =
  user_id :: string
  name :: string
  points :: int
  rank :: int

text \<open>The payload of a successful claim: \<^verbatim>\<open>const { updatedUser, pointsClaimed } = response.data\<close>.\<close>

record claim_response =
  updatedUser :: user
  pointsClaimed :: int

text \<open>
  What the handlers read of a rejection reason: \<^verbatim>\<open>err.message\<close> and the optional chain
  \<^verbatim>\<open>err.response?.data?.message\<close>, which is \<open>None\<close> when any link of it is undefined.
\<close>

record axios_error =
  err_message :: string
  err_response_message :: "string option"

text \<open>The terminal state of a promise.\<close>

datatype 'a settled = Fulfilled 'a | Rejected axios_error

text \<open>The calls made to the service, one constructor for each URL and verb of the file.\<close>

datatype request =
    GetUsers
  | PostUser string "int option"
  | PostClaim string
  | PostClearScores
  | DeleteAllUsers
  | DeleteUser string

text \<open>The two shapes of \<^verbatim>\<open>console.error\<close> calls: a label with the caught error, and a
  label with an optional detail text.\<close>

datatype log_entry =
    ErrorLog string axios_error
  | DetailLog string "string option"

text \<open>
  The component state: the twelve \<^verbatim>\<open>useState\<close> cells of \<open>App\<close>, followed by the
  environment the component acts on: the requests sent so far, the console, every argument
  \<^verbatim>\<open>setMessage\<close> was called with, and the browser's timers (a clock in milliseconds, the
  live timers as pairs of handle and due time, the next free handle, and the handle held by
  the cleanup function of the message effect).
\<close>

record state =
  users :: "user list"
  selectedUserId :: string
  newUserName :: string
  message :: string
  isLoading :: bool
  error :: "string option"
  isClearScoresModalOpen :: bool
  isClearUsersModalOpen :: bool
  isAddUserModalOpen :: bool
  isDeleteUserModalOpen :: bool
  userToDelete :: "user option"
  isActionsMenuOpen :: bool
  requests :: "request list"
  console :: "log_entry list"
  messageLog :: "string list"
  clock :: nat
  timers :: "(nat \<times> nat) list"
  nextTimer :: nat
  effectCleanup :: "nat option"

text \<open>The state after the first render: the initial values of the \<^verbatim>\<open>useState\<close> calls.\<close>

definition initial_state :: state where
  "initial_state =
     \<lparr> users = [], selectedUserId = [], newUserName = [], message = [],
       isLoading = True, error = None,
       isClearScoresModalOpen = False, isClearUsersModalOpen = False,
       isAddUserModalOpen = False, isDeleteUserModalOpen = False,
       userToDelete = None, isActionsMenuOpen = False,
       requests = [], console = [], messageLog = [],
       clock = 0, timers = [], nextTimer = 0, effectCleanup = None \<rparr>"

section \<open>JavaScript primitives\<close>

text \<open>\<^verbatim>\<open>xs[i]\<close>: \<open>None\<close> stands for \<^verbatim>\<open>undefined\<close>, the value of a read at or past the length.\<close>

definition js_index :: "'a list \<Rightarrow> nat \<Rightarrow> 'a option" where
  "js_index xs i = (if i < length xs then Some (xs ! i) else None)"

text \<open>A template hole \<^verbatim>\<open>${x}\<close> holding a string or \<^verbatim>\<open>undefined\<close>.\<close>

definition template_hole :: "string option \<Rightarrow> string" where
  "template_hole v = (case v of None \<Rightarrow> ''undefined'' | Some t \<Rightarrow> t)"

text \<open>Decimal digits, with a sign when negative.\<close>

fun show_nat :: "nat \<Rightarrow> string" where
  "show_nat n =
     (if n < 10 then [''0123456789'' ! n]
      else show_nat (n div 10) @ [''0123456789'' ! (n mod 10)])"

definition show_int :: "int \<Rightarrow> string" where
  "show_int i = (if i < 0 then CHR ''-'' # show_nat (nat (- i)) else show_nat (nat i))"

text \<open>
  A template hole \<^verbatim>\<open>${x}\<close> holding a number of integer value.  A safe integer
  (\<^verbatim>\<open>Number.isSafeInteger\<close>: below 2 to the power 53 in magnitude) is held exactly and
  is written as its decimal digits.  Beyond that the client holds the nearest floating
  point number and writes the shortest digits that read back as it, in exponent notation
  from 10 to the power 21 on; that text is not computed here but taken from the parameter
  \<open>beyond\<close>.
\<close>

definition isSafeInteger :: "int \<Rightarrow> bool" where
  "isSafeInteger i = (- (2 ^ 53) < i \<and> i < 2 ^ 53)"

definition number_hole :: "(int \<Rightarrow> string) \<Rightarrow> int \<Rightarrow> string" where
  "number_hole beyond i = (if isSafeInteger i then show_int i else beyond i)"

text \<open>\<^verbatim>\<open>a || b\<close> on an optional string: \<open>a\<close> unless it is undefined or empty.\<close>

definition js_or :: "string option \<Rightarrow> string \<Rightarrow> string" where
  "js_or a b = (case a of None \<Rightarrow> b | Some t \<Rightarrow> if t = [] then b else t)"

text \<open>
  The white space and line terminators of ECMAScript, each as its UTF-8 bytes: tab, line
  feed, vertical tab, form feed, carriage return, space; U+00A0; U+1680; U+2000 to U+200A;
  U+2028, U+2029, U+202F; U+205F; U+3000; U+FEFF.
\<close>

definition js_whitespace :: "string list" where
  "js_whitespace =
     [[CHR 0x09], [CHR 0x0A], [CHR 0x0B], [CHR 0x0C], [CHR 0x0D], [CHR 0x20],
      [CHR 0xC2, CHR 0xA0],
      [CHR 0xE1, CHR 0x9A, CHR 0x80],
      [CHR 0xE2, CHR 0x80, CHR 0x80], [CHR 0xE2, CHR 0x80, CHR 0x81],
      [CHR 0xE2, CHR 0x80, CHR 0x82], [CHR 0xE2, CHR 0x80, CHR 0x83],
      [CHR 0xE2, CHR 0x80, CHR 0x84], [CHR 0xE2, CHR 0x80, CHR 0x85],
      [CHR 0xE2, CHR 0x80, CHR 0x86], [CHR 0xE2, CHR 0x80, CHR 0x87],
      [CHR 0xE2, CHR 0x80, CHR 0x88], [CHR 0xE2, CHR 0x80, CHR 0x89],
      [CHR 0xE2, CHR 0x80, CHR 0x8A],
      [CHR 0xE2, CHR 0x80, CHR 0xA8], [CHR 0xE2, CHR 0x80, CHR 0xA9],
      [CHR 0xE2, CHR 0x80, CHR 0xAF],
      [CHR 0xE2, CHR 0x81, CHR 0x9F],
      [CHR 0xE3, CHR 0x80, CHR 0x80],
      [CHR 0xEF, CHR 0xBB, CHR 0xBF]]"

text \<open>
  Removing from the front of a text every leading character whose bytes are in \<open>ws\<close>
  (characters of one, two or three bytes).
\<close>

fun strip :: "string list \<Rightarrow> string \<Rightarrow> string" where
  "strip ws [] = []"
| "strip ws [c] = (if [c] \<in> set ws then [] else [c])"
| "strip ws [c, d] =
     (if [c] \<in> set ws then strip ws [d]
      else if [c, d] \<in> set ws then []
      else [c, d])"
| "strip ws (c # d # e # rest) =
     (if [c] \<in> set ws then strip ws (d # e # rest)
      else if [c, d] \<in> set ws then strip ws (e # rest)
      else if [c, d, e] \<in> set ws then strip ws rest
      else c # d # e # rest)"

text \<open>
  \<^verbatim>\<open>String.prototype.trim\<close>: white space is removed at the front and, read backwards, at
  the end.
\<close>

definition trim :: "string \<Rightarrow> string" where
  "trim t = rev (strip (map rev js_whitespace) (rev (strip js_whitespace t)))"

section \<open>Completions of a block\<close>

text \<open>
  A block of an async function either runs to its end or throws; both carry the state
  reached.  \<open>await\<close> resumes with the value of a fulfilled promise and throws the reason
  of a rejected one; \<open>try_catch\<close> and \<open>try_finally\<close> are the two clauses of a
  \<^verbatim>\<open>try\<close> statement.
\<close>

datatype completion = Normal state | Throw axios_error state

definition await :: "'a settled \<Rightarrow> state \<Rightarrow> ('a \<Rightarrow> state \<Rightarrow> completion) \<Rightarrow> completion" where
  "await p s k = (case p of Fulfilled v \<Rightarrow> k v s | Rejected e \<Rightarrow> Throw e s)"

definition try_catch :: "completion \<Rightarrow> (axios_error \<Rightarrow> state \<Rightarrow> completion) \<Rightarrow> completion" where
  "try_catch c h = (case c of Normal s \<Rightarrow> Normal s | Throw e s \<Rightarrow> h e s)"

definition try_finally :: "completion \<Rightarrow> (state \<Rightarrow> state) \<Rightarrow> completion" where
  "try_finally c f = (case c of Normal s \<Rightarrow> Normal (f s) | Throw e s \<Rightarrow> Throw e (f s))"

text \<open>The state a completion ends in, and whether an error left the block.\<close>

definition final :: "completion \<Rightarrow> state" where
  "final c = (case c of Normal s \<Rightarrow> s | Throw e s \<Rightarrow> s)"

definition escapes :: "completion \<Rightarrow> bool" where
  "escapes c = (case c of Normal s \<Rightarrow> False | Throw e s \<Rightarrow> True)"

section \<open>Timers and the message effect\<close>

text \<open>
  \<^verbatim>\<open>setTimeout(() => setMessage(''), 4000)\<close> registers a timer under a fresh handle;
  every timer of the file has this one callback, so a timer is its handle and its due time.
  \<^verbatim>\<open>clearTimeout\<close> removes the timer with the given handle.
\<close>

definition setTimeout :: "nat \<Rightarrow> state \<Rightarrow> nat \<times> state" where
  "setTimeout delay s =
     (nextTimer s,
      s\<lparr>timers := timers s @ [(nextTimer s, clock s + delay)], nextTimer := nextTimer s + 1\<rparr>)"

definition clearTimeout :: "nat \<Rightarrow> state \<Rightarrow> state" where
  "clearTimeout h s = s\<lparr>timers := filter (\<lambda>(i, due). i \<noteq> h) (timers s)\<rparr>"

text \<open>
  The effect \<^verbatim>\<open>useEffect(() => { if (message) { const timer = setTimeout(...); return () =>
  clearTimeout(timer); } }, [message])\<close>.  React runs the cleanup returned by the previous
  run, then the body, whenever the dependency \<open>message\<close> differs from its value at the
  previous render.
\<close>

definition message_effect_cleanup :: "state \<Rightarrow> state" where
  "message_effect_cleanup s =
     (case effectCleanup s of
        None \<Rightarrow> s
      | Some timer \<Rightarrow> (clearTimeout timer s)\<lparr>effectCleanup := None\<rparr>)"

definition message_effect :: "state \<Rightarrow> state" where
  "message_effect s =
     (if message s \<noteq> [] then
        (let (timer, s') = setTimeout 4000 s in s'\<lparr>effectCleanup := Some timer\<rparr>)
      else s)"

section \<open>State setters\<close>

text \<open>
  \<^verbatim>\<open>setMessage\<close> records its argument and stores it; a value equal to the stored one
  changes no dependency, so the effect does not run again.
\<close>

definition setMessage :: "string \<Rightarrow> state \<Rightarrow> state" where
  "setMessage t s =
     (let s' = s\<lparr>messageLog := messageLog s @ [t]\<rparr> in
      if t = message s then s'
      else message_effect (message_effect_cleanup (s'\<lparr>message := t\<rparr>)))"

definition setUsers :: "user list \<Rightarrow> state \<Rightarrow> state" where
  "setUsers us s = s\<lparr>users := us\<rparr>"

definition setSelectedUserId :: "string \<Rightarrow> state \<Rightarrow> state" where
  "setSelectedUserId v s = s\<lparr>selectedUserId := v\<rparr>"

text \<open>The functional form \<^verbatim>\<open>setSelectedUserId(prevId => ...)\<close>.\<close>

definition setSelectedUserId_with :: "(string \<Rightarrow> string) \<Rightarrow> state \<Rightarrow> state" where
  "setSelectedUserId_with f s = s\<lparr>selectedUserId := f (selectedUserId s)\<rparr>"

definition setNewUserName :: "string \<Rightarrow> state \<Rightarrow> state" where
  "setNewUserName v s = s\<lparr>newUserName := v\<rparr>"

definition setIsLoading :: "bool \<Rightarrow> state \<Rightarrow> state" where
  "setIsLoading b s = s\<lparr>isLoading := b\<rparr>"

definition setError :: "string option \<Rightarrow> state \<Rightarrow> state" where
  "setError e s = s\<lparr>error := e\<rparr>"

definition setIsClearScoresModalOpen :: "bool \<Rightarrow> state \<Rightarrow> state" where
  "setIsClearScoresModalOpen b s = s\<lparr>isClearScoresModalOpen := b\<rparr>"

definition setIsClearUsersModalOpen :: "bool \<Rightarrow> state \<Rightarrow> state" where
  "setIsClearUsersModalOpen b s = s\<lparr>isClearUsersModalOpen := b\<rparr>"

definition setIsAddUserModalOpen :: "bool \<Rightarrow> state \<Rightarrow> state" where
  "setIsAddUserModalOpen b s = s\<lparr>isAddUserModalOpen := b\<rparr>"

definition setIsDeleteUserModalOpen :: "bool \<Rightarrow> state \<Rightarrow> state" where
  "setIsDeleteUserModalOpen b s = s\<lparr>isDeleteUserModalOpen := b\<rparr>"

definition setUserToDelete :: "user option \<Rightarrow> state \<Rightarrow> state" where
  "setUserToDelete u s = s\<lparr>userToDelete := u\<rparr>"

definition setIsActionsMenuOpen :: "bool \<Rightarrow> state \<Rightarrow> state" where
  "setIsActionsMenuOpen b s = s\<lparr>isActionsMenuOpen := b\<rparr>"

text \<open>Sending a request and writing to the console append to the two histories.\<close>

definition axios_send :: "request \<Rightarrow> state \<Rightarrow> state" where
  "axios_send r s = s\<lparr>requests := requests s @ [r]\<rparr>"

definition console_error :: "log_entry \<Rightarrow> state \<Rightarrow> state" where
  "console_error l s = s\<lparr>console := console s @ [l]\<rparr>"

section \<open>\<^verbatim>\<open>fetchUsers\<close>\<close>

text \<open>
  A call of \<^verbatim>\<open>fetchUsers()\<close> runs up to its \<^verbatim>\<open>await\<close>: it raises the loading flag,
  clears the error and sends the list request.  No caller awaits the promise it returns.
\<close>

definition fetchUsers_begin :: "state \<Rightarrow> state" where
  "fetchUsers_begin s = axios_send GetUsers (setError None (setIsLoading True s))"

text \<open>The rest of \<^verbatim>\<open>fetchUsers\<close>, run when the list request has settled.\<close>

definition fetchUsers_settle :: "user list settled \<Rightarrow> state \<Rightarrow> completion" where
  "fetchUsers_settle p s =
     try_finally
       (try_catch
          (await p s (\<lambda>data s.
             let s = setUsers data s in
             if length data > 0 then
               Normal (setSelectedUserId_with
                 (\<lambda>prevId.
                    if prevId = [] \<or> find (\<lambda>u. user_id u = prevId) data = None
                    then user_id (data ! 0)
                    else prevId) s)
             else Normal (setSelectedUserId [] s)))
          (\<lambda>err s.
             let s = console_error (ErrorLog ''Error fetching users:'' err) s in
             if err_message err = ''Network Error'' then
               Normal (setError (Some ''Network Error: Cannot connect to the server. Please make sure your Node.js backend is running on port 5000 and there are no errors in its terminal.'') s)
             else Normal (setError (Some (''An error occurred: '' @ err_message err)) s)))
       (setIsLoading False)"

definition fetchUsers :: "user list settled \<Rightarrow> state \<Rightarrow> completion" where
  "fetchUsers p s = fetchUsers_settle p (fetchUsers_begin s)"

section \<open>Bulk generation: \<^verbatim>\<open>handleGenerateTenUsers\<close>\<close>

definition adjectives :: "string list" where
  "adjectives = [''Swift'', ''Silent'', ''Golden'', ''Iron'', ''Cosmic'', ''Shadow'',
     ''Crystal'', ''Solar'', ''Lunar'', ''Crimson'', ''Azure'', ''Jade'']"

definition nouns :: "string list" where
  "nouns = [''Jaguar'', ''Phoenix'', ''Spectre'', ''Golem'', ''Voyager'', ''Ninja'',
     ''Dragon'', ''Flare'', ''Hunter'', ''Warden'', ''Knight'', ''Sorcerer'']"

text \<open>
  The name built in one round of the loop.  The pair \<open>r\<close> holds the two indices
  \<^verbatim>\<open>Math.floor(Math.random() * 12)\<close> drawn in that round.
\<close>

definition random_name :: "nat \<times> nat \<Rightarrow> string" where
  "random_name r =
     template_hole (js_index adjectives (fst r)) @ '' '' @ template_hole (js_index nouns (snd r))"

text \<open>The loop: ten create requests are sent, none of them awaited.\<close>

definition send_random_users :: "(nat \<Rightarrow> nat \<times> nat) \<Rightarrow> state \<Rightarrow> state" where
  "send_random_users rnd s =
     fold (\<lambda>i s. axios_send (PostUser (random_name (rnd i)) (Some 0)) s) [0..<10] s"

text \<open>\<^verbatim>\<open>Promise.allSettled\<close> fulfils with the terminal state of every promise; it never rejects.\<close>

definition Promise_allSettled :: "'a settled list \<Rightarrow> 'a settled list settled" where
  "Promise_allSettled ps = Fulfilled ps"

text \<open>The body of \<^verbatim>\<open>results.forEach\<close>, on the counter and the state.\<close>

definition tally :: "user settled \<Rightarrow> nat \<times> state \<Rightarrow> nat \<times> state" where
  "tally result acc =
     (case result of
        Fulfilled v \<Rightarrow> (fst acc + 1, snd acc)
      | Rejected reason \<Rightarrow>
          (fst acc,
           console_error
             (DetailLog ''Could not create a random user:'' (err_response_message reason))
             (snd acc)))"

text \<open>
  The handler.  \<open>rnd i\<close> is the random draw of round \<open>i\<close> and \<open>outcome i\<close> the terminal
  state the \<open>i\<close>-th create request reaches.
\<close>

definition handleGenerateTenUsers ::
  "(nat \<Rightarrow> nat \<times> nat) \<Rightarrow> (nat \<Rightarrow> user settled) \<Rightarrow> state \<Rightarrow> completion" where
  "handleGenerateTenUsers rnd outcome s =
     (let s = setIsLoading True s;
          s = send_random_users rnd s;
          promises = map outcome [0..<10]
      in try_finally
           (try_catch
              (await (Promise_allSettled promises) s (\<lambda>results s.
                 let (createdCount, s) = fold tally results (0, s) in
                 if createdCount > 0 then
                   Normal (fetchUsers_begin
                     (setMessage (''Generated '' @ show_nat createdCount @ '' new random players!'') s))
                 else
                   Normal (setMessage ''Failed to generate new users. They might already exist.'' s)))
              (\<lambda>err s. Normal (setError (Some ''An error occurred while generating users.'') s)))
           (setIsLoading False))"

section \<open>The other handlers\<close>

text \<open>
  Each handler takes the terminal state \<open>p\<close> of the one request it may send.  The
  handler reads the state cells it needs before the request; after it, it only calls
  setters and \<^verbatim>\<open>fetchUsers()\<close>.
\<close>

definition handleAddUser :: "user settled \<Rightarrow> state \<Rightarrow> completion" where
  "handleAddUser p s =
     (if trim (newUserName s) = [] then Normal s
      else
        try_catch
          (await p (axios_send (PostUser (newUserName s) None) s) (\<lambda>response s.
             let s = setMessage
                       (''User '' @ [CHR 0x22] @ name response @ [CHR 0x22] @ '' added successfully!'') s;
                 s = setNewUserName [] s;
                 s = setIsAddUserModalOpen False s
             in Normal (fetchUsers_begin s)))
          (\<lambda>err s.
             let s = console_error (ErrorLog ''Error adding user:'' err) s;
                 errorMessage =
                   js_or (err_response_message err)
                     (if err_message err = ''Network Error''
                      then ''Network Error: Check server connection.''
                      else ''Failed to add user.'')
             in Normal (setMessage (''Error: '' @ errorMessage) s)))"

text \<open>
  The first characters of the success message are the emoji of the template, byte for
  byte as the file stores it.
\<close>

definition claim_emoji :: string where
  "claim_emoji = [CHR 0xEF, CHR 0xA3, CHR 0xBF, CHR 0xC3, CHR 0xBC, CHR 0xC3, CHR 0xA9, CHR 0xC3, CHR 0xA2]"

text \<open>
  The parameter \<open>beyond\<close> is the one of \<open>number_hole\<close>: the text the template writes
  for an amount that is not a safe integer.
\<close>

definition handleClaimPoints ::
  "(int \<Rightarrow> string) \<Rightarrow> claim_response settled \<Rightarrow> state \<Rightarrow> completion" where
  "handleClaimPoints beyond p s =
     (if selectedUserId s = [] then Normal (setMessage ''Please select a user first.'' s)
      else
        try_catch
          (await p (axios_send (PostClaim (selectedUserId s)) s) (\<lambda>response s.
             let s = setMessage
                       (claim_emoji @ '' You claimed ''
                          @ number_hole beyond (pointsClaimed response)
                          @ '' points for '' @ name (updatedUser response) @ ''!'') s
             in Normal (fetchUsers_begin s)))
          (\<lambda>err s.
             let s = console_error (ErrorLog ''Error claiming points:'' err) s
             in Normal (setMessage
                  (if err_message err = ''Network Error''
                   then ''Network Error: Check server connection.''
                   else ''Failed to claim points.'') s)))"

definition handleClearAllScores :: "unit settled \<Rightarrow> state \<Rightarrow> completion" where
  "handleClearAllScores p s =
     try_finally
       (try_catch
          (await p (axios_send PostClearScores s) (\<lambda>response s.
             Normal (fetchUsers_begin (setMessage ''All scores have been cleared successfully.'' s))))
          (\<lambda>err s.
             let s = console_error (ErrorLog ''Error clearing scores:'' err) s
             in Normal (setMessage
                  (if err_message err = ''Network Error''
                   then ''Network Error: Check server connection.''
                   else ''Failed to clear scores.'') s)))
       (setIsClearScoresModalOpen False)"

definition handleClearAllUsers :: "unit settled \<Rightarrow> state \<Rightarrow> completion" where
  "handleClearAllUsers p s =
     try_finally
       (try_catch
          (await p (axios_send DeleteAllUsers s) (\<lambda>response s.
             Normal (fetchUsers_begin (setMessage ''All users have been deleted.'' s))))
          (\<lambda>err s.
             let s = console_error (ErrorLog ''Error deleting all users:'' err) s
             in Normal (setMessage
                  (if err_message err = ''Network Error''
                   then ''Network Error: Check server connection.''
                   else ''Failed to delete all users.'') s)))
       (setIsClearUsersModalOpen False)"

definition handleDeleteUser :: "unit settled \<Rightarrow> state \<Rightarrow> completion" where
  "handleDeleteUser p s =
     (case userToDelete s of
        None \<Rightarrow> Normal s
      | Some target \<Rightarrow>
          try_finally
            (try_catch
               (await p (axios_send (DeleteUser (user_id target)) s) (\<lambda>response s.
                  let s = setMessage
                            (''User '' @ [CHR 0x22] @ name target @ [CHR 0x22] @ '' was deleted.'') s;
                      s = setIsDeleteUserModalOpen False s;
                      s = setUserToDelete None s
                  in Normal (fetchUsers_begin s)))
               (\<lambda>err s.
                  let s = console_error (ErrorLog ''Error deleting user:'' err) s
                  in Normal (setMessage
                       (if err_message err = ''Network Error''
                        then ''Network Error: Check server connection.''
                        else ''Failed to delete user.'') s)))
            (setUserToDelete None))"

text \<open>The \<^verbatim>\<open>onChange\<close> handler of the select: \<^verbatim>\<open>(e) => setSelectedUserId(e.target.value)\<close>.\<close>

definition select_onChange :: "string \<Rightarrow> state \<Rightarrow> state" where
  "select_onChange v s = setSelectedUserId v s"

text \<open>
  The values of the options a user can pick in the select, one for each player:
  \<^verbatim>\<open>users.map((user) => (<option key={user._id} value={user._id}>...))\<close>.  The option with
  the empty value is disabled.
\<close>

definition select_options :: "state \<Rightarrow> string list" where
  "select_options s = map (\<lambda>user. user_id user) (users s)"

section \<open>The podium\<close>

definition podiumOrder :: "nat list" where
  "podiumOrder = [1, 0, 2]"

text \<open>The array \<^verbatim>\<open>podiumOrder.map(index => topUsers[index])\<close>, before the filter.\<close>

definition podium_lookups :: "user list \<Rightarrow> user option list" where
  "podium_lookups topUsers = map (\<lambda>index. js_index topUsers index) podiumOrder"

text \<open>\<^verbatim>\<open>filter(Boolean)\<close> keeps the objects and drops \<^verbatim>\<open>undefined\<close>.\<close>

definition Podium :: "user list \<Rightarrow> user list" where
  "Podium topUsers = map the (filter (\<lambda>v. v \<noteq> None) (podium_lookups topUsers))"

text \<open>\<^verbatim>\<open>users.slice(0, 3)\<close>, and the podium the component shows for a player list.\<close>

definition topThreeUsers :: "user list \<Rightarrow> user list" where
  "topThreeUsers us = take 3 us"

definition podium_view :: "user list \<Rightarrow> user list" where
  "podium_view us = Podium (topThreeUsers us)"

section \<open>Passing of time\<close>

text \<open>
  A live timer that comes due runs its callback \<^verbatim>\<open>() => setMessage('')\<close>.  Moving the
  clock to \<open>t\<close> fires the timers due by then, earliest first.
\<close>

definition fire_timer :: "nat \<times> nat \<Rightarrow> state \<Rightarrow> state" where
  "fire_timer t s =
     (if t \<in> set (timers s) then
        setMessage [] (s\<lparr>timers := removeAll t (timers s), clock := max (clock s) (snd t)\<rparr>)
      else s)"

definition advance_to :: "nat \<Rightarrow> state \<Rightarrow> state" where
  "advance_to t s =
     (let s' = fold fire_timer (sort_key snd (filter (\<lambda>(h, due). due \<le> t) (timers s))) s
      in s'\<lparr>clock := max (clock s') t\<rparr>)"

text \<open>
  Between events either no message is shown and no timer is live, or a message is shown
  and the one live timer is the one the effect's cleanup holds.
\<close>

definition timer_inv :: "state \<Rightarrow> bool" where
  "timer_inv s =
     (case timers s of
        [] \<Rightarrow> message s = [] \<and> effectCleanup s = None
      | [(h, due)] \<Rightarrow>
          message s \<noteq> [] \<and> effectCleanup s = Some h \<and> h < nextTimer s \<and> clock s < due
      | _ \<Rightarrow> False)"

section \<open>Notions and data used in the statements\<close>

text \<open>A request that reached the terminal state \<^verbatim>\<open>fulfilled\<close>.\<close>

definition succeeded :: "'a settled \<Rightarrow> bool" where
  "succeeded r = (case r of Fulfilled v \<Rightarrow> True | Rejected e \<Rightarrow> False)"

text \<open>
  Reading a decimal text back as the integer it denotes: an optional minus sign, then one
  or more digits.  This is what it means for a text to be the amount.
\<close>

definition digit_of :: "char \<Rightarrow> nat option" where
  "digit_of c = map_of (zip ''0123456789'' [0, 1, 2, 3, 4, 5, 6, 7, 8, 9]) c"

fun read_digits :: "nat \<Rightarrow> string \<Rightarrow> nat option" where
  "read_digits acc [] = Some acc"
| "read_digits acc (c # cs) =
     (case digit_of c of None \<Rightarrow> None | Some d \<Rightarrow> read_digits (10 * acc + d) cs)"

definition read_nat :: "string \<Rightarrow> nat option" where
  "read_nat t = (if t = [] then None else read_digits 0 t)"

definition read_int :: "string \<Rightarrow> int option" where
  "read_int t =
     (case t of
        [] \<Rightarrow> None
      | c # cs \<Rightarrow>
          if c = CHR ''-'' then map_option (\<lambda>n. - int n) (read_nat cs)
          else map_option int (read_nat t))"

text \<open>The two players of the specification's scenario.\<close>

definition ann :: user where
  "ann = \<lparr>user_id = ''a'', name = ''Ann'', points = 50, rank = 1\<rparr>"

definition bo :: user where
  "bo = \<lparr>user_id = ''b'', name = ''Bo'', points = 30, rank = 2\<rparr>"

text \<open>
  Three rejection reasons: the service cannot be reached; it refuses a duplicate name;
  it answers with status 500 and a detail text of its own.
\<close>

definition net_err :: axios_error where
  "net_err = \<lparr>err_message = ''Network Error'', err_response_message = None\<rparr>"

definition dup_err :: axios_error where
  "dup_err = \<lparr>err_message = ''Request failed with status code 400'',
               err_response_message = Some ''User already exists''\<rparr>"

definition srv_err :: axios_error where
  "srv_err = \<lparr>err_message = ''Request failed with status code 500'',
               err_response_message = Some ''Database unavailable''\<rparr>"

text \<open>A state with two players, Bo picked for deletion, a name typed in, every dialog open.\<close>

definition dialogs_open :: state where
  "dialogs_open = initial_state\<lparr>users := [ann, bo], newUserName := ''Cy'',
     isClearScoresModalOpen := True, isClearUsersModalOpen := True, isAddUserModalOpen := True,
     isDeleteUserModalOpen := True, userToDelete := Some bo\<rparr>"

text \<open>
  The add dialog open with a name made of white space only: a space, a no-break space
  (U+00A0), an ideographic space (U+3000) and a line feed.  No player is picked.
\<close>

definition blank_name :: state where
  "blank_name = initial_state\<lparr>users := [ann, bo],
     newUserName := [CHR 0x20, CHR 0xC2, CHR 0xA0, CHR 0xE3, CHR 0x80, CHR 0x80, CHR 0x0A],
     isAddUserModalOpen := True\<rparr>"

text \<open>A state with Ann listed and selected, and nothing loading.\<close>

definition ann_selected :: state where
  "ann_selected = initial_state\<lparr>users := [ann], selectedUserId := ''a'', isLoading := False\<rparr>"

section \<open>Setters and blocks: basic facts\<close>

lemmas setter_defs =
  setUsers_def setSelectedUserId_def setSelectedUserId_with_def setNewUserName_def
  setIsLoading_def setError_def setIsClearScoresModalOpen_def setIsClearUsersModalOpen_def
  setIsAddUserModalOpen_def setIsDeleteUserModalOpen_def setUserToDelete_def
  setIsActionsMenuOpen_def axios_send_def console_error_def

lemmas block_defs = await_def try_catch_def try_finally_def final_def escapes_def

lemma setMessage_message [simp]: "message (setMessage t s) = t"
  by (simp add: setMessage_def message_effect_def message_effect_cleanup_def
      setTimeout_def clearTimeout_def Let_def split: option.splits)

lemma setMessage_messageLog [simp]: "messageLog (setMessage t s) = messageLog s @ [t]"
  by (simp add: setMessage_def message_effect_def message_effect_cleanup_def
      setTimeout_def clearTimeout_def Let_def split: option.splits)

lemma setMessage_frame [simp]:
  "users (setMessage t s) = users s"
  "selectedUserId (setMessage t s) = selectedUserId s"
  "newUserName (setMessage t s) = newUserName s"
  "isLoading (setMessage t s) = isLoading s"
  "error (setMessage t s) = error s"
  "isClearScoresModalOpen (setMessage t s) = isClearScoresModalOpen s"
  "isClearUsersModalOpen (setMessage t s) = isClearUsersModalOpen s"
  "isAddUserModalOpen (setMessage t s) = isAddUserModalOpen s"
  "isDeleteUserModalOpen (setMessage t s) = isDeleteUserModalOpen s"
  "userToDelete (setMessage t s) = userToDelete s"
  "isActionsMenuOpen (setMessage t s) = isActionsMenuOpen s"
  "requests (setMessage t s) = requests s"
  "console (setMessage t s) = console s"
  "clock (setMessage t s) = clock s"
  by (simp_all add: setMessage_def message_effect_def message_effect_cleanup_def
      setTimeout_def clearTimeout_def Let_def split: option.splits)

text \<open>The equation of \<open>show_nat\<close> is used through its two cases only.\<close>

lemma show_nat_small: "n < 10 \<Longrightarrow> show_nat n = [''0123456789'' ! n]"
  by (subst show_nat.simps) simp

lemma show_nat_large:
  "\<not> n < 10 \<Longrightarrow> show_nat n = show_nat (n div 10) @ [''0123456789'' ! (n mod 10)]"
  by (subst show_nat.simps) simp

declare show_nat.simps [simp del]

section \<open>Bulk generation\<close>

lemma fold_tally:
  "fold tally results (c, s) =
     (c + length (filter succeeded results),
      s\<lparr>console := console s @
          map (\<lambda>r. case r of Rejected reason \<Rightarrow>
                 DetailLog ''Could not create a random user:'' (err_response_message reason))
              (filter (\<lambda>r. \<not> succeeded r) results)\<rparr>)"
  by (induction results arbitrary: c s)
     (auto simp: tally_def succeeded_def console_error_def split: settled.splits)

lemma fold_axios_send:
  "fold (\<lambda>i s. axios_send (f i) s) xs s = s\<lparr>requests := requests s @ map f xs\<rparr>"
  by (induction xs arbitrary: s) (auto simp: axios_send_def)

lemma length_filter_not: "length (filter (\<lambda>r. \<not> P r) xs) = length xs - length (filter P xs)"
  by (induction xs) (auto simp: Suc_diff_le)

lemma send_random_users_eq:
  "send_random_users rnd s =
     s\<lparr>requests := requests s @ map (\<lambda>i. PostUser (random_name (rnd i)) (Some 0)) [0..<10]\<rparr>"
  unfolding send_random_users_def by (rule fold_axios_send)

lemma handleGenerateTenUsers_all_rejected:
  "handleGenerateTenUsers rnd (\<lambda>i. Rejected (reason i)) s =
     Normal (setIsLoading False
       (setMessage ''Failed to generate new users. They might already exist.''
          ((send_random_users rnd (setIsLoading True s))
             \<lparr>console := console s @
                map (\<lambda>i. DetailLog ''Could not create a random user:''
                       (err_response_message (reason i))) [0..<10]\<rparr>)))"
proof -
  define results :: "user settled list" where "results = map (\<lambda>i. Rejected (reason i)) [0..<10]"
  have none: "filter succeeded results = []" and all: "filter (\<lambda>r. \<not> succeeded r) results = results"
    by (simp_all add: results_def succeeded_def del: upt_rec_numeral)
  have logs: "map (\<lambda>r. case r of Rejected reason \<Rightarrow>
                 DetailLog ''Could not create a random user:'' (err_response_message reason)) results
      = map (\<lambda>i. DetailLog ''Could not create a random user:''
                       (err_response_message (reason i))) [0..<10]"
    by (simp add: results_def del: upt_rec_numeral)
  show ?thesis
    unfolding handleGenerateTenUsers_def results_def [symmetric]
    by (simp add: fold_tally none all logs Promise_allSettled_def block_defs Let_def
        send_random_users_eq setter_defs del: upt_rec_numeral)
qed

lemma handleGenerateTenUsers_error_all_rejected:
  "error (final (handleGenerateTenUsers rnd (\<lambda>i. Rejected (reason i)) s)) = error s"
  by (simp add: handleGenerateTenUsers_all_rejected final_def send_random_users_eq setter_defs
      del: upt_rec_numeral)

text \<open>
  Claim C1.  Whatever the ten create requests do, with exactly \<open>k\<close> of them fulfilled
  and the others rejected: the handler looks at all ten terminal states (it logs each of
  the \<open>10 - k\<close> rejections), it ends normally, so no error leaves it; it calls
  \<^verbatim>\<open>setMessage\<close> exactly once, with the aggregate text; and after the ten create
  requests it sends the list request of \<^verbatim>\<open>fetchUsers()\<close> if and only if \<open>k > 0\<close>.
\<close>

theorem handleGenerateTenUsers_aggregates:
  assumes "length (filter succeeded (map outcome [0..<10])) = k"
  shows "\<exists>s'. handleGenerateTenUsers rnd outcome s = Normal s'
     \<and> messageLog s' = messageLog s @
         [if k > 0 then ''Generated '' @ show_nat k @ '' new random players!''
          else ''Failed to generate new users. They might already exist.'']
     \<and> message s' =
         (if k > 0 then ''Generated '' @ show_nat k @ '' new random players!''
          else ''Failed to generate new users. They might already exist.'')
     \<and> requests s' = requests s @ map (\<lambda>i. PostUser (random_name (rnd i)) (Some 0)) [0..<10]
          @ (if k > 0 then [GetUsers] else [])
     \<and> length (console s') = length (console s) + (10 - k)
     \<and> users s' = users s"
proof -
  define results where "results = map outcome [0..<10]"
  have len: "length results = 10"
    by (simp add: results_def)
  have k: "length (filter succeeded results) = k"
    using assms by (simp only: results_def)
  have pos: "0 < k \<longleftrightarrow> filter succeeded results \<noteq> []"
    using k by auto
  have rej: "length (filter (\<lambda>r. \<not> succeeded r) results) = 10 - k"
    by (simp only: length_filter_not len k)
  show ?thesis
    unfolding handleGenerateTenUsers_def results_def [symmetric]
    using k rej pos
    by (simp add: send_random_users_eq fold_tally Promise_allSettled_def block_defs
        setter_defs fetchUsers_begin_def Let_def
        del: upt_rec_numeral)
qed

text \<open>
  Three requests are fulfilled and seven are refused as duplicates: one message, seven log
  entries, and the list request after the ten create requests.
\<close>

theorem handleGenerateTenUsers_aggregates_witness:
  "length (filter succeeded
      (map (\<lambda>i. if i < 3 then Fulfilled ann else Rejected dup_err) [0..<10])) = 3
   \<and> (\<exists>s'. handleGenerateTenUsers (\<lambda>i. (i, 11 - i))
          (\<lambda>i. if i < 3 then Fulfilled ann else Rejected dup_err) initial_state = Normal s'
     \<and> messageLog s' = [''Generated 3 new random players!'']
     \<and> message s' = ''Generated 3 new random players!''
     \<and> length (requests s') = 11 \<and> last (requests s') = GetUsers
     \<and> length (console s') = 7)"
proof -
  let ?out = "\<lambda>i::nat. if i < 3 then Fulfilled ann else Rejected dup_err"
  have k: "length (filter succeeded (map ?out [0..<10])) = 3"
    by code_simp
  show ?thesis
    using k handleGenerateTenUsers_aggregates [OF k, of "\<lambda>i. (i, 11 - i)" initial_state]
    by (auto simp: initial_state_def show_nat_small)
qed

section \<open>The list fetch\<close>

lemma fetchUsers_settle_Fulfilled:
  "fetchUsers_settle (Fulfilled data) s =
     Normal (s\<lparr>users := data,
               selectedUserId :=
                 (if data = [] then []
                  else if selectedUserId s = [] \<or> selectedUserId s \<notin> user_id ` set data
                  then user_id (data ! 0) else selectedUserId s),
               isLoading := False\<rparr>)"
  by (auto simp: fetchUsers_settle_def block_defs setter_defs Let_def find_None_iff image_iff)

lemma fetchUsers_settle_Rejected:
  "fetchUsers_settle (Rejected err) s =
     Normal (s\<lparr>console := console s @ [ErrorLog ''Error fetching users:'' err],
               error := Some (if err_message err = ''Network Error''
                  then ''Network Error: Cannot connect to the server. Please make sure your Node.js backend is running on port 5000 and there are no errors in its terminal.''
                  else ''An error occurred: '' @ err_message err),
               isLoading := False\<rparr>)"
  by (simp add: fetchUsers_settle_def block_defs setter_defs Let_def)

text \<open>
  Claim C2.  When the list request is fulfilled with \<open>data\<close>, in whatever state \<open>s\<close> the
  answer arrives: if \<open>data\<close> is not empty and the selection of \<open>s\<close> is empty or is the id
  of no player of \<open>data\<close>, the selection becomes the id of \<open>data[0]\<close>; if \<open>data\<close> is
  empty, the selection becomes empty.  The list becomes \<open>data\<close>, no error leaves the
  function, and the part of \<^verbatim>\<open>fetchUsers\<close> before the request leaves the selection alone.
\<close>

theorem fetchUsers_selection_snaps:
  "(data \<noteq> [] \<and> (selectedUserId s = [] \<or> selectedUserId s \<notin> user_id ` set data)
      \<longrightarrow> selectedUserId (final (fetchUsers_settle (Fulfilled data) s)) = user_id (data ! 0))
   \<and> (data = [] \<longrightarrow> selectedUserId (final (fetchUsers_settle (Fulfilled data) s)) = [])
   \<and> users (final (fetchUsers_settle (Fulfilled data) s)) = data
   \<and> \<not> escapes (fetchUsers_settle (Fulfilled data) s)
   \<and> selectedUserId (fetchUsers_begin s) = selectedUserId s"
  by (simp add: fetchUsers_settle_Fulfilled final_def escapes_def fetchUsers_begin_def setter_defs)

text \<open>
  The specification's scenario: the list Ann, Bo arrives with nothing selected, or with
  the id of a player who is gone; and an empty list arrives while Ann is selected.
\<close>

theorem fetchUsers_selection_snaps_witness:
  "selectedUserId (final (fetchUsers_settle (Fulfilled [ann, bo]) initial_state)) = ''a''
   \<and> selectedUserId
        (final (fetchUsers_settle (Fulfilled [ann, bo]) (initial_state\<lparr>selectedUserId := ''z''\<rparr>)))
       = ''a''
   \<and> selectedUserId (final (fetchUsers_settle (Fulfilled []) ann_selected)) = []"
  using fetchUsers_selection_snaps [of "[ann, bo]" initial_state]
        fetchUsers_selection_snaps [of "[ann, bo]" "initial_state\<lparr>selectedUserId := ''z''\<rparr>"]
        fetchUsers_selection_snaps [of "[]" ann_selected]
  by (simp add: initial_state_def ann_def bo_def)

text \<open>
  Claim C10.  When the list request is fulfilled with a list that holds the player whose
  id is selected (a selection is present, that is, not the empty string), the selection
  stays as it is.
\<close>

theorem fetchUsers_keeps_valid_selection:
  assumes "selectedUserId s \<noteq> []" and "selectedUserId s \<in> user_id ` set data"
  shows "selectedUserId (final (fetchUsers_settle (Fulfilled data) s)) = selectedUserId s"
  using assms by (auto simp: fetchUsers_settle_Fulfilled final_def)

text \<open>Bo is selected and the list Ann, Bo arrives: Bo stays selected, though Ann is first.\<close>

theorem fetchUsers_keeps_valid_selection_witness:
  "selectedUserId (initial_state\<lparr>selectedUserId := ''b''\<rparr>) \<noteq> []
   \<and> selectedUserId (initial_state\<lparr>selectedUserId := ''b''\<rparr>) \<in> user_id ` set [ann, bo]
   \<and> selectedUserId
        (final (fetchUsers_settle (Fulfilled [ann, bo]) (initial_state\<lparr>selectedUserId := ''b''\<rparr>)))
       = ''b''"
proof -
  let ?s = "initial_state\<lparr>selectedUserId := ''b''\<rparr>"
  have a: "selectedUserId ?s \<noteq> []" by simp
  have b: "selectedUserId ?s \<in> user_id ` set [ann, bo]" by (simp add: bo_def)
  show ?thesis using a b fetchUsers_keeps_valid_selection [OF a b] by simp
qed

subsection \<open>A failed fetch\<close>

lemma fire_timer_error: "error (fire_timer x s) = error s"
  by (simp add: fire_timer_def)

lemma fold_fire_timer_error: "error (fold fire_timer xs s) = error s"
  by (induction xs arbitrary: s) (simp_all add: fire_timer_error)

lemma advance_to_error: "error (advance_to t s) = error s"
  by (simp add: advance_to_def Let_def fold_fire_timer_error)

text \<open>
  Claim C5 does not hold as stated.  With Ann listed, a fetch fails with status 500 and
  the service's detail text \<open>Database unavailable\<close>: the error state shows the message of
  the error object and not that detail text.  The next call of \<^verbatim>\<open>fetchUsers\<close> clears the
  error state as it starts; that fetch fails too (the service cannot be reached), so the
  first error is gone although no fetch has succeeded.
\<close>

theorem fetchUsers_error_cleared_on_begin:
  "err_response_message srv_err = Some ''Database unavailable''
   \<and> error (final (fetchUsers (Rejected srv_err) (initial_state\<lparr>users := [ann]\<rparr>)))
       = Some ''An error occurred: Request failed with status code 500''
   \<and> error (fetchUsers_begin
        (final (fetchUsers (Rejected srv_err) (initial_state\<lparr>users := [ann]\<rparr>))))
       = None
   \<and> error (final (fetchUsers (Rejected net_err)
        (final (fetchUsers (Rejected srv_err) (initial_state\<lparr>users := [ann]\<rparr>)))))
       \<noteq> Some ''An error occurred: Request failed with status code 500''"
  by (simp add: fetchUsers_def fetchUsers_settle_Rejected fetchUsers_begin_def setter_defs
      final_def srv_err_def net_err_def)

text \<open>
  Claim C5, amended.  When the list request is rejected, no error leaves the function and
  the player list stays as it was.  The error state becomes the fixed connectivity text
  when the message of the error object is \<open>Network Error\<close>, and otherwise
  \<open>An error occurred:\<close> followed by that message; the two never coincide.  The error
  state is cleared by the next call of \<^verbatim>\<open>fetchUsers\<close> as it starts, which also keeps the
  list; until then it stays: choosing a player, setting a message, the passing of time, and
  every handler whose request is rejected (for the bulk generation: all ten) leave it as
  it is.
\<close>

theorem fetchUsers_failure_state:
  "\<not> escapes (fetchUsers_settle (Rejected err) s)
   \<and> users (final (fetchUsers_settle (Rejected err) s)) = users s
   \<and> error (final (fetchUsers_settle (Rejected err) s)) =
       Some (if err_message err = ''Network Error''
             then ''Network Error: Cannot connect to the server. Please make sure your Node.js backend is running on port 5000 and there are no errors in its terminal.''
             else ''An error occurred: '' @ err_message err)
   \<and> ''Network Error: Cannot connect to the server. Please make sure your Node.js backend is running on port 5000 and there are no errors in its terminal.''
       \<noteq> ''An error occurred: '' @ m
   \<and> users (fetchUsers_begin s) = users s
   \<and> error (fetchUsers_begin s) = None
   \<and> error (select_onChange v s) = error s
   \<and> error (setMessage t s) = error s
   \<and> error (advance_to n s) = error s
   \<and> error (final (handleClaimPoints beyond (Rejected e) s)) = error s
   \<and> error (final (handleAddUser (Rejected e) s)) = error s
   \<and> error (final (handleClearAllScores (Rejected e) s)) = error s
   \<and> error (final (handleClearAllUsers (Rejected e) s)) = error s
   \<and> error (final (handleDeleteUser (Rejected e) s)) = error s
   \<and> error (final (handleGenerateTenUsers rnd (\<lambda>i. Rejected (reason i)) s)) = error s"
proof -
  have gen: "error (final (handleGenerateTenUsers rnd (\<lambda>i. Rejected (reason i)) s)) = error s"
    by (rule handleGenerateTenUsers_error_all_rejected)
  have claim: "error (final (handleClaimPoints beyond (Rejected e) s)) = error s"
    by (simp add: handleClaimPoints_def block_defs setter_defs Let_def)
  have add: "error (final (handleAddUser (Rejected e) s)) = error s"
    by (simp add: handleAddUser_def block_defs setter_defs Let_def)
  have scores: "error (final (handleClearAllScores (Rejected e) s)) = error s"
    by (simp add: handleClearAllScores_def block_defs setter_defs Let_def)
  have all: "error (final (handleClearAllUsers (Rejected e) s)) = error s"
    by (simp add: handleClearAllUsers_def block_defs setter_defs Let_def)
  have del: "error (final (handleDeleteUser (Rejected e) s)) = error s"
    by (simp add: handleDeleteUser_def block_defs setter_defs Let_def split: option.splits)
  have fetch: "\<not> escapes (fetchUsers_settle (Rejected err) s)
     \<and> users (final (fetchUsers_settle (Rejected err) s)) = users s
     \<and> error (final (fetchUsers_settle (Rejected err) s)) =
         Some (if err_message err = ''Network Error''
               then ''Network Error: Cannot connect to the server. Please make sure your Node.js backend is running on port 5000 and there are no errors in its terminal.''
               else ''An error occurred: '' @ err_message err)"
    by (simp add: fetchUsers_settle_Rejected final_def escapes_def)
  have start: "users (fetchUsers_begin s) = users s \<and> error (fetchUsers_begin s) = None"
    by (simp add: fetchUsers_begin_def setter_defs)
  have rest: "error (select_onChange v s) = error s \<and> error (setMessage t s) = error s
     \<and> error (advance_to n s) = error s"
    by (simp add: select_onChange_def setter_defs advance_to_error)
  have differ: "''Network Error: Cannot connect to the server. Please make sure your Node.js backend is running on port 5000 and there are no errors in its terminal.''
       \<noteq> ''An error occurred: '' @ m"
    by simp
  from fetch differ start rest claim add scores all del gen show ?thesis by blast
qed

section \<open>Choosing a player and claiming points\<close>

text \<open>
  Claim C6 does not hold as stated.  With Ann the only player and selected, the handler
  called with an id that belongs to no player of the list makes that id the selection.
\<close>

theorem select_onChange_accepts_stale_id:
  "''zzz'' \<notin> user_id ` set (users ann_selected)
   \<and> users ann_selected \<noteq> []
   \<and> selectedUserId ann_selected = ''a''
   \<and> selectedUserId (select_onChange ''zzz'' ann_selected) = ''zzz''"
  by (simp add: select_onChange_def setSelectedUserId_def ann_selected_def ann_def)

text \<open>
  Claim C6, amended.  The handler makes the given id the selection whatever the player
  list holds, and changes nothing else; it makes no membership test.  When the id is the
  value of one of the options the select offers, the new selection is the id of a player
  of the list.
\<close>

theorem select_onChange_unguarded:
  "select_onChange v s = s\<lparr>selectedUserId := v\<rparr>
   \<and> (v \<in> set (select_options s) \<longrightarrow>
        selectedUserId (select_onChange v s) \<in> user_id ` set (users (select_onChange v s)))"
  by (auto simp: select_onChange_def setSelectedUserId_def select_options_def)

text \<open>Ann and Bo are listed, Ann is selected, and Bo's option is picked.\<close>

theorem select_onChange_unguarded_witness:
  "''b'' \<in> set (select_options (initial_state\<lparr>users := [ann, bo], selectedUserId := ''a''\<rparr>))
   \<and> selectedUserId
        (select_onChange ''b'' (initial_state\<lparr>users := [ann, bo], selectedUserId := ''a''\<rparr>))
       = ''b''"
  using select_onChange_unguarded
    [of "''b''" "initial_state\<lparr>users := [ann, bo], selectedUserId := ''a''\<rparr>"]
  by (simp add: select_options_def bo_def)

text \<open>
  Claim C7.  Called with no selection, \<^verbatim>\<open>handleClaimPoints\<close> ends normally, has sent no
  request, and has called \<^verbatim>\<open>setMessage\<close> once, with the guidance text.
\<close>

theorem handleClaimPoints_no_selection:
  assumes "selectedUserId s = []"
  shows "\<exists>s'. handleClaimPoints beyond p s = Normal s'
     \<and> requests s' = requests s
     \<and> message s' = ''Please select a user first.''
     \<and> messageLog s' = messageLog s @ [''Please select a user first.'']"
  using assms by (simp add: handleClaimPoints_def)

theorem handleClaimPoints_no_selection_witness:
  "selectedUserId initial_state = []
   \<and> (\<exists>s'. handleClaimPoints (\<lambda>i. []) (Fulfilled \<lparr>updatedUser = ann, pointsClaimed = 7\<rparr>) initial_state
          = Normal s'
     \<and> requests s' = requests initial_state
     \<and> message s' = ''Please select a user first.''
     \<and> messageLog s' = messageLog initial_state @ [''Please select a user first.''])"
proof -
  have a: "selectedUserId initial_state = []" by (simp add: initial_state_def)
  show ?thesis using a handleClaimPoints_no_selection [OF a, of "\<lambda>i. []"] by simp
qed

lemma handleClaimPoints_Fulfilled:
  assumes "selectedUserId s \<noteq> []"
  shows "handleClaimPoints beyond (Fulfilled r) s =
     Normal (fetchUsers_begin
       (setMessage (claim_emoji @ '' You claimed '' @ number_hole beyond (pointsClaimed r)
            @ '' points for '' @ name (updatedUser r) @ ''!'')
          (axios_send (PostClaim (selectedUserId s)) s)))"
  using assms by (simp add: handleClaimPoints_def block_defs Let_def)

lemma handleClaimPoints_Rejected:
  assumes "selectedUserId s \<noteq> []"
  shows "handleClaimPoints beyond (Rejected e) s =
     Normal (setMessage
       (if err_message e = ''Network Error'' then ''Network Error: Check server connection.''
        else ''Failed to claim points.'')
       (console_error (ErrorLog ''Error claiming points:'' e)
          (axios_send (PostClaim (selectedUserId s)) s)))"
  using assms by (simp add: handleClaimPoints_def block_defs Let_def)

subsection \<open>The decimal text of an amount denotes that amount\<close>

lemma digit_of_nth:
  assumes "d < 10"
  shows "digit_of (''0123456789'' ! d) = Some d"
proof -
  from assms have "d = 0 \<or> d = 1 \<or> d = 2 \<or> d = 3 \<or> d = 4 \<or> d = 5 \<or> d = 6 \<or> d = 7 \<or> d = 8 \<or> d = 9"
    by arith
  then show ?thesis by (auto simp: digit_of_def)
qed

lemma digit_is_not_minus:
  assumes "d < 10"
  shows "''0123456789'' ! d \<noteq> CHR ''-''"
proof -
  from assms have "d = 0 \<or> d = 1 \<or> d = 2 \<or> d = 3 \<or> d = 4 \<or> d = 5 \<or> d = 6 \<or> d = 7 \<or> d = 8 \<or> d = 9"
    by arith
  then show ?thesis by auto
qed

lemma read_digits_snoc:
  "read_digits acc (xs @ [c]) =
     (case read_digits acc xs of
        None \<Rightarrow> None
      | Some a \<Rightarrow> (case digit_of c of None \<Rightarrow> None | Some d \<Rightarrow> Some (10 * a + d)))"
  by (induction xs arbitrary: acc) (auto split: option.splits)

lemma read_digits_show_nat: "read_digits 0 (show_nat n) = Some n"
proof (induction n rule: show_nat.induct)
  case (1 n)
  show ?case
  proof (cases "n < 10")
    case True
    then show ?thesis by (simp add: show_nat_small digit_of_nth)
  next
    case False
    then have "read_digits 0 (show_nat (n div 10)) = Some (n div 10)"
      by (rule "1.IH")
    then show ?thesis
      using False by (simp add: show_nat_large read_digits_snoc digit_of_nth)
  qed
qed

lemma show_nat_not_Nil: "show_nat n \<noteq> []"
  by (cases "n < 10") (simp_all add: show_nat_small show_nat_large)

lemma hd_show_nat_not_minus: "hd (show_nat n) \<noteq> CHR ''-''"
proof (induction n rule: show_nat.induct)
  case (1 n)
  show ?case
  proof (cases "n < 10")
    case True
    then show ?thesis by (simp add: show_nat_small digit_is_not_minus)
  next
    case False
    then have "hd (show_nat (n div 10)) \<noteq> CHR ''-''"
      by (rule "1.IH")
    then show ?thesis
      using False show_nat_not_Nil [of "n div 10"]
      by (simp add: show_nat_large)
  qed
qed

lemma read_nat_show_nat: "read_nat (show_nat n) = Some n"
  by (simp add: read_nat_def show_nat_not_Nil read_digits_show_nat)

lemma read_int_show_int: "read_int (show_int i) = Some i"
proof (cases "i < 0")
  case True
  then show ?thesis
    by (simp add: read_int_def show_int_def read_nat_show_nat)
next
  case False
  obtain c cs where sh: "show_nat (nat i) = c # cs"
    using show_nat_not_Nil [of "nat i"] by (cases "show_nat (nat i)") auto
  with hd_show_nat_not_minus [of "nat i"] have "c \<noteq> CHR ''-''"
    by simp
  moreover have "read_nat (c # cs) = Some (nat i)"
    using read_nat_show_nat [of "nat i"] sh by simp
  ultimately show ?thesis
    using False sh by (simp add: read_int_def show_int_def)
qed

text \<open>
  Claim C8.  With a selection present.  When the claim request is fulfilled with the
  updated user and the points claimed: the message is the template's text, which contains
  the player's name and the text of the amount; for a safe integer that text is the
  decimal numeral, which read back as a number is the amount the service returned.
  \<^verbatim>\<open>setMessage\<close> was called once; the requests sent are the claim and, after it, the list
  request of \<^verbatim>\<open>fetchUsers()\<close>.  When the claim request is rejected: the message is one of
  two fixed failure texts, and the claim is the only request sent, so nothing is tried
  again.  No error leaves the handler either way.
\<close>

theorem handleClaimPoints_outcomes:
  assumes "selectedUserId s \<noteq> []"
  shows "\<not> escapes (handleClaimPoints beyond (Fulfilled r) s)
     \<and> message (final (handleClaimPoints beyond (Fulfilled r) s))
         = claim_emoji @ '' You claimed '' @ number_hole beyond (pointsClaimed r)
              @ '' points for '' @ name (updatedUser r) @ ''!''
     \<and> sublist (name (updatedUser r))
         (message (final (handleClaimPoints beyond (Fulfilled r) s)))
     \<and> sublist (number_hole beyond (pointsClaimed r))
         (message (final (handleClaimPoints beyond (Fulfilled r) s)))
     \<and> (isSafeInteger (pointsClaimed r) \<longrightarrow>
          read_int (number_hole beyond (pointsClaimed r)) = Some (pointsClaimed r))
     \<and> messageLog (final (handleClaimPoints beyond (Fulfilled r) s))
         = messageLog s @ [message (final (handleClaimPoints beyond (Fulfilled r) s))]
     \<and> requests (final (handleClaimPoints beyond (Fulfilled r) s))
         = requests s @ [PostClaim (selectedUserId s), GetUsers]
     \<and> \<not> escapes (handleClaimPoints beyond (Rejected e) s)
     \<and> message (final (handleClaimPoints beyond (Rejected e) s))
         = (if err_message e = ''Network Error'' then ''Network Error: Check server connection.''
            else ''Failed to claim points.'')
     \<and> messageLog (final (handleClaimPoints beyond (Rejected e) s))
         = messageLog s @ [message (final (handleClaimPoints beyond (Rejected e) s))]
     \<and> requests (final (handleClaimPoints beyond (Rejected e) s))
         = requests s @ [PostClaim (selectedUserId s)]"
proof -
  let ?text = "claim_emoji @ '' You claimed '' @ number_hole beyond (pointsClaimed r)
      @ '' points for '' @ name (updatedUser r) @ ''!''"
  note ok = handleClaimPoints_Fulfilled [OF assms, of beyond r]
  note bad = handleClaimPoints_Rejected [OF assms, of beyond e]
  have msg: "message (final (handleClaimPoints beyond (Fulfilled r) s)) = ?text"
    unfolding ok by (simp add: final_def fetchUsers_begin_def setter_defs)
  have has_name: "sublist (name (updatedUser r)) ?text"
    unfolding sublist_def by (metis append.assoc)
  have has_points: "sublist (number_hole beyond (pointsClaimed r)) ?text"
    unfolding sublist_def by (metis append.assoc)
  have denotes: "isSafeInteger (pointsClaimed r) \<longrightarrow>
      read_int (number_hole beyond (pointsClaimed r)) = Some (pointsClaimed r)"
    by (simp add: number_hole_def read_int_show_int)
  have log: "messageLog (final (handleClaimPoints beyond (Fulfilled r) s)) = messageLog s @ [?text]"
    unfolding ok by (simp add: final_def fetchUsers_begin_def setter_defs)
  have req: "requests (final (handleClaimPoints beyond (Fulfilled r) s))
      = requests s @ [PostClaim (selectedUserId s), GetUsers]"
    unfolding ok by (simp add: final_def fetchUsers_begin_def setter_defs)
  have esc: "\<not> escapes (handleClaimPoints beyond (Fulfilled r) s)"
    unfolding ok by (simp add: escapes_def)
  have failure: "\<not> escapes (handleClaimPoints beyond (Rejected e) s)
     \<and> message (final (handleClaimPoints beyond (Rejected e) s))
         = (if err_message e = ''Network Error'' then ''Network Error: Check server connection.''
            else ''Failed to claim points.'')
     \<and> messageLog (final (handleClaimPoints beyond (Rejected e) s))
         = messageLog s @ [message (final (handleClaimPoints beyond (Rejected e) s))]
     \<and> requests (final (handleClaimPoints beyond (Rejected e) s))
         = requests s @ [PostClaim (selectedUserId s)]"
    unfolding bad by (simp add: final_def escapes_def setter_defs)
  show ?thesis
    unfolding msg using has_name has_points denotes esc req failure log by simp
qed

text \<open>
  The specification's scenario: Ann, with id \<open>a\<close>, is selected and the service answers
  with Ann and 7 points; the same with 1250 points, with no points, and with 3 points taken
  away; and the claim when the service cannot be reached.
\<close>

theorem handleClaimPoints_outcomes_witness:
  "selectedUserId ann_selected \<noteq> []
   \<and> isSafeInteger 7 \<and> isSafeInteger 1250 \<and> isSafeInteger 0 \<and> isSafeInteger (- 3)
   \<and> message (final (handleClaimPoints (\<lambda>i. []) (Fulfilled \<lparr>updatedUser = ann, pointsClaimed = 7\<rparr>)
        ann_selected))
      = claim_emoji @ '' You claimed 7 points for Ann!''
   \<and> read_int ''7'' = Some 7
   \<and> message (final (handleClaimPoints (\<lambda>i. []) (Fulfilled \<lparr>updatedUser = ann, pointsClaimed = 1250\<rparr>)
        ann_selected))
      = claim_emoji @ '' You claimed 1250 points for Ann!''
   \<and> read_int ''1250'' = Some 1250
   \<and> message (final (handleClaimPoints (\<lambda>i. []) (Fulfilled \<lparr>updatedUser = ann, pointsClaimed = 0\<rparr>)
        ann_selected))
      = claim_emoji @ '' You claimed 0 points for Ann!''
   \<and> message (final (handleClaimPoints (\<lambda>i. []) (Fulfilled \<lparr>updatedUser = ann, pointsClaimed = - 3\<rparr>)
        ann_selected))
      = claim_emoji @ '' You claimed -3 points for Ann!''
   \<and> read_int ''-3'' = Some (- 3)
   \<and> requests (final (handleClaimPoints (\<lambda>i. []) (Fulfilled \<lparr>updatedUser = ann, pointsClaimed = 7\<rparr>)
        ann_selected)) = [PostClaim ''a'', GetUsers]
   \<and> message (final (handleClaimPoints (\<lambda>i. []) (Rejected net_err) ann_selected))
      = ''Network Error: Check server connection.''
   \<and> requests (final (handleClaimPoints (\<lambda>i. []) (Rejected net_err) ann_selected))
      = [PostClaim ''a'']"
proof -
  have a: "selectedUserId ann_selected \<noteq> []"
    by (simp add: ann_selected_def)
  have b: "selectedUserId ann_selected = ''a''" "requests ann_selected = []"
    by (simp_all add: ann_selected_def initial_state_def)
  have safe: "isSafeInteger 7" "isSafeInteger 1250" "isSafeInteger 0" "isSafeInteger (- 3)"
    by (simp_all add: isSafeInteger_def)
  have digits: "show_int 7 = ''7''" "show_int 1250 = ''1250''" "show_int 0 = ''0''"
      "show_int (- 3) = ''-3''"
    by (simp_all add: show_int_def show_nat_small show_nat_large)
  note inst = handleClaimPoints_outcomes [OF a, of "\<lambda>i. []" _ net_err]
  show ?thesis
    using a safe
      inst [of "\<lparr>updatedUser = ann, pointsClaimed = 7\<rparr>"]
      inst [of "\<lparr>updatedUser = ann, pointsClaimed = 1250\<rparr>"]
      inst [of "\<lparr>updatedUser = ann, pointsClaimed = 0\<rparr>"]
      inst [of "\<lparr>updatedUser = ann, pointsClaimed = - 3\<rparr>"]
    by (simp add: b ann_def net_err_def number_hole_def digits)
qed

section \<open>The podium\<close>

lemma podium_view_cases:
  "podium_view us =
     (case us of [] \<Rightarrow> [] | [a] \<Rightarrow> [a] | [a, b] \<Rightarrow> [b, a] | a # b # c # rest \<Rightarrow> [b, a, c])"
  by (auto simp: podium_view_def Podium_def podium_lookups_def podiumOrder_def topThreeUsers_def
      js_index_def split: list.splits)

text \<open>
  Claim C3 does not hold as stated, in its last part.  For a list of one player the
  component looks up the indices 1, 0 and 2 of a one-element array: the first lookup is
  already at the length, and two of the three lookups yield \<^verbatim>\<open>undefined\<close>.
\<close>

theorem podium_reads_past_length:
  "length (topThreeUsers [ann]) = 1
   \<and> podiumOrder ! 0 = 1
   \<and> podium_lookups (topThreeUsers [ann]) = [None, Some ann, None]
   \<and> \<not> (\<forall>i \<in> set podiumOrder. i < length (topThreeUsers [ann]))"
  by (simp add: podium_lookups_def topThreeUsers_def podiumOrder_def js_index_def)

text \<open>
  Claim C3, amended.  The podium is a function of the player list alone: for no player it
  is empty, for one player it shows that player, for two it shows second then first, for
  three or more second, first, third.  Its length is the smaller of 3 and the number of
  players, and every entry is a player of the list.  A lookup at or past the length of the
  top-three array yields \<^verbatim>\<open>undefined\<close>, which the filter drops.
\<close>

theorem podium_view_shape:
  "podium_view us =
     (case us of [] \<Rightarrow> [] | [a] \<Rightarrow> [a] | [a, b] \<Rightarrow> [b, a] | a # b # c # rest \<Rightarrow> [b, a, c])
   \<and> length (podium_view us) = min 3 (length us)
   \<and> set (podium_view us) \<subseteq> set us
   \<and> (\<forall>i. length (topThreeUsers us) \<le> i \<longrightarrow> js_index (topThreeUsers us) i = None)"
  by (auto simp: podium_view_cases js_index_def split: list.splits)

text \<open>The specification's scenario: Ann and Bo give Bo then Ann, with no third place.\<close>

theorem podium_view_shape_witness:
  "podium_view [ann, bo] = [bo, ann] \<and> length (podium_view [ann, bo]) = 2
   \<and> podium_view [ann] = [ann] \<and> podium_view [] = []
   \<and> length (topThreeUsers [ann, bo]) \<le> 2 \<and> js_index (topThreeUsers [ann, bo]) 2 = None"
  using podium_view_shape [of "[ann, bo]"] podium_view_shape [of "[ann]"]
    podium_view_shape [of "[]"]
  by (simp add: topThreeUsers_def)

section \<open>The confirm handlers\<close>

lemma handleClearAllScores_eq:
  "handleClearAllScores p s =
     Normal (setIsClearScoresModalOpen False
       (case p of
          Fulfilled v \<Rightarrow>
            fetchUsers_begin (setMessage ''All scores have been cleared successfully.''
              (axios_send PostClearScores s))
        | Rejected e \<Rightarrow>
            setMessage (if err_message e = ''Network Error''
                        then ''Network Error: Check server connection.''
                        else ''Failed to clear scores.'')
              (console_error (ErrorLog ''Error clearing scores:'' e)
                 (axios_send PostClearScores s))))"
  by (cases p) (simp_all add: handleClearAllScores_def block_defs Let_def)

lemma handleClearAllUsers_eq:
  "handleClearAllUsers p s =
     Normal (setIsClearUsersModalOpen False
       (case p of
          Fulfilled v \<Rightarrow>
            fetchUsers_begin (setMessage ''All users have been deleted.''
              (axios_send DeleteAllUsers s))
        | Rejected e \<Rightarrow>
            setMessage (if err_message e = ''Network Error''
                        then ''Network Error: Check server connection.''
                        else ''Failed to delete all users.'')
              (console_error (ErrorLog ''Error deleting all users:'' e)
                 (axios_send DeleteAllUsers s))))"
  by (cases p) (simp_all add: handleClearAllUsers_def block_defs Let_def)

lemma handleDeleteUser_eq:
  assumes "userToDelete s = Some target"
  shows "handleDeleteUser p s =
     Normal (setUserToDelete None
       (case p of
          Fulfilled v \<Rightarrow>
            fetchUsers_begin (setUserToDelete None (setIsDeleteUserModalOpen False
              (setMessage (''User '' @ [CHR 0x22] @ name target @ [CHR 0x22] @ '' was deleted.'')
                (axios_send (DeleteUser (user_id target)) s))))
        | Rejected e \<Rightarrow>
            setMessage (if err_message e = ''Network Error''
                        then ''Network Error: Check server connection.''
                        else ''Failed to delete user.'')
              (console_error (ErrorLog ''Error deleting user:'' e)
                (axios_send (DeleteUser (user_id target)) s))))"
  using assms by (cases p) (simp_all add: handleDeleteUser_def block_defs Let_def)

lemma handleAddUser_eq:
  assumes "trim (newUserName s) \<noteq> []"
  shows "handleAddUser q s =
     Normal
       (case q of
          Fulfilled response \<Rightarrow>
            fetchUsers_begin (setIsAddUserModalOpen False (setNewUserName []
              (setMessage
                 (''User '' @ [CHR 0x22] @ name response @ [CHR 0x22] @ '' added successfully!'')
                 (axios_send (PostUser (newUserName s) None) s))))
        | Rejected e \<Rightarrow>
            setMessage (''Error: '' @
                js_or (err_response_message e)
                  (if err_message e = ''Network Error''
                   then ''Network Error: Check server connection.''
                   else ''Failed to add user.''))
              (console_error (ErrorLog ''Error adding user:'' e)
                (axios_send (PostUser (newUserName s) None) s)))"
  using assms by (cases q) (simp_all add: handleAddUser_def block_defs Let_def)

text \<open>
  Claim C4 does not hold as stated.  With every dialog open, a name typed in and Bo picked
  for deletion: the create request of \<^verbatim>\<open>handleAddUser\<close> is sent and rejected, and the add
  dialog is still open afterwards; the delete request of \<^verbatim>\<open>handleDeleteUser\<close> is sent and
  rejected, and the dialog listing the players is still open afterwards, only the
  confirmation (the picked player) is gone.
\<close>

theorem handleAddUser_failure_keeps_dialog:
  "trim (newUserName dialogs_open) \<noteq> []
   \<and> requests (final (handleAddUser (Rejected dup_err) dialogs_open)) = [PostUser ''Cy'' None]
   \<and> isAddUserModalOpen (final (handleAddUser (Rejected dup_err) dialogs_open)) = True
   \<and> message (final (handleAddUser (Rejected dup_err) dialogs_open))
       = ''Error: User already exists''
   \<and> requests (final (handleDeleteUser (Rejected net_err) dialogs_open)) = [DeleteUser ''b'']
   \<and> isDeleteUserModalOpen (final (handleDeleteUser (Rejected net_err) dialogs_open)) = True
   \<and> userToDelete (final (handleDeleteUser (Rejected net_err) dialogs_open)) = None"
  by (simp add: handleAddUser_def handleDeleteUser_def trim_def js_whitespace_def js_or_def
      block_defs setter_defs Let_def dup_err_def net_err_def dialogs_open_def initial_state_def
      bo_def)

text \<open>
  Claim C4, amended.  Each of the four handlers lets no error out.  The reset handler and
  the delete-all handler always send their request; afterwards, whether it was fulfilled or
  rejected, their dialog is closed and \<^verbatim>\<open>setMessage\<close> was called exactly once, with a
  text for success or for failure.  The handler of the single deletion, with a player
  picked, does the same and closes the confirmation (the picked player is cleared) either
  way; the dialog listing the players is closed when the request was fulfilled and left as
  it was when it was rejected; with no player picked it does nothing.  The add handler,
  with a name that is not blank after trimming, sets one message as well, closes the add
  dialog when the request was fulfilled and leaves it as it was when it was rejected; with
  a blank name it does nothing.
\<close>

theorem confirm_handlers_dialogs:
   "\<not> escapes (handleClearAllScores p s)
    \<and> isClearScoresModalOpen (final (handleClearAllScores p s)) = False
    \<and> messageLog (final (handleClearAllScores p s)) = messageLog s @
        [case p of Fulfilled v \<Rightarrow> ''All scores have been cleared successfully.''
         | Rejected e \<Rightarrow> if err_message e = ''Network Error''
             then ''Network Error: Check server connection.'' else ''Failed to clear scores.'']
    \<and> \<not> escapes (handleClearAllUsers p s)
    \<and> isClearUsersModalOpen (final (handleClearAllUsers p s)) = False
    \<and> messageLog (final (handleClearAllUsers p s)) = messageLog s @
        [case p of Fulfilled v \<Rightarrow> ''All users have been deleted.''
         | Rejected e \<Rightarrow> if err_message e = ''Network Error''
             then ''Network Error: Check server connection.''
             else ''Failed to delete all users.'']
    \<and> \<not> escapes (handleDeleteUser p s)
    \<and> userToDelete (final (handleDeleteUser p s)) = None
    \<and> (userToDelete s = None \<longrightarrow> handleDeleteUser p s = Normal s)
    \<and> (userToDelete s = Some target \<longrightarrow>
         isDeleteUserModalOpen (final (handleDeleteUser p s)) =
           (case p of Fulfilled v \<Rightarrow> False | Rejected e \<Rightarrow> isDeleteUserModalOpen s)
         \<and> messageLog (final (handleDeleteUser p s)) = messageLog s @
           [case p of
              Fulfilled v \<Rightarrow>
                ''User '' @ [CHR 0x22] @ name target @ [CHR 0x22] @ '' was deleted.''
            | Rejected e \<Rightarrow> if err_message e = ''Network Error''
                then ''Network Error: Check server connection.''
                else ''Failed to delete user.''])
    \<and> \<not> escapes (handleAddUser q s)
    \<and> (trim (newUserName s) = [] \<longrightarrow> handleAddUser q s = Normal s)
    \<and> (trim (newUserName s) \<noteq> [] \<longrightarrow>
         isAddUserModalOpen (final (handleAddUser q s)) =
           (case q of Fulfilled response \<Rightarrow> False | Rejected e \<Rightarrow> isAddUserModalOpen s)
         \<and> messageLog (final (handleAddUser q s)) = messageLog s @
           [case q of
              Fulfilled response \<Rightarrow>
                ''User '' @ [CHR 0x22] @ name response @ [CHR 0x22] @ '' added successfully!''
            | Rejected e \<Rightarrow> ''Error: '' @
                js_or (err_response_message e)
                  (if err_message e = ''Network Error''
                   then ''Network Error: Check server connection.''
                   else ''Failed to add user.'')])"
proof -
  have scores: "\<not> escapes (handleClearAllScores p s)
    \<and> isClearScoresModalOpen (final (handleClearAllScores p s)) = False
    \<and> messageLog (final (handleClearAllScores p s)) = messageLog s @
        [case p of Fulfilled v \<Rightarrow> ''All scores have been cleared successfully.''
         | Rejected e \<Rightarrow> if err_message e = ''Network Error''
             then ''Network Error: Check server connection.'' else ''Failed to clear scores.'']"
    by (cases p)
       (simp_all add: handleClearAllScores_eq final_def escapes_def fetchUsers_begin_def
          setter_defs)
  have all: "\<not> escapes (handleClearAllUsers p s)
    \<and> isClearUsersModalOpen (final (handleClearAllUsers p s)) = False
    \<and> messageLog (final (handleClearAllUsers p s)) = messageLog s @
        [case p of Fulfilled v \<Rightarrow> ''All users have been deleted.''
         | Rejected e \<Rightarrow> if err_message e = ''Network Error''
             then ''Network Error: Check server connection.''
             else ''Failed to delete all users.'']"
    by (cases p)
       (simp_all add: handleClearAllUsers_eq final_def escapes_def fetchUsers_begin_def
          setter_defs)
  have none: "userToDelete s = None \<longrightarrow> handleDeleteUser p s = Normal s"
    by (simp add: handleDeleteUser_def)
  have picked: "\<not> escapes (handleDeleteUser p s)
    \<and> userToDelete (final (handleDeleteUser p s)) = None
    \<and> isDeleteUserModalOpen (final (handleDeleteUser p s)) =
        (case p of Fulfilled v \<Rightarrow> False | Rejected e \<Rightarrow> isDeleteUserModalOpen s)
    \<and> messageLog (final (handleDeleteUser p s)) = messageLog s @
        [case p of
           Fulfilled v \<Rightarrow> ''User '' @ [CHR 0x22] @ name target @ [CHR 0x22] @ '' was deleted.''
         | Rejected e \<Rightarrow> if err_message e = ''Network Error''
             then ''Network Error: Check server connection.'' else ''Failed to delete user.'']"
    if "userToDelete s = Some target"
    by (cases p)
       (simp_all add: handleDeleteUser_eq [OF that] final_def escapes_def
          fetchUsers_begin_def setter_defs)
  have one: "\<not> escapes (handleDeleteUser p s)
    \<and> userToDelete (final (handleDeleteUser p s)) = None"
  proof (cases "userToDelete s")
    case None
    then show ?thesis by (simp add: handleDeleteUser_def final_def escapes_def)
  next
    case (Some u)
    then show ?thesis
      by (cases p)
         (simp_all add: handleDeleteUser_eq [OF Some] final_def escapes_def
            fetchUsers_begin_def setter_defs)
  qed
  have blank: "trim (newUserName s) = [] \<longrightarrow> handleAddUser q s = Normal s"
    by (simp add: handleAddUser_def)
  have typed: "\<not> escapes (handleAddUser q s)
    \<and> isAddUserModalOpen (final (handleAddUser q s)) =
        (case q of Fulfilled response \<Rightarrow> False | Rejected e \<Rightarrow> isAddUserModalOpen s)
    \<and> messageLog (final (handleAddUser q s)) = messageLog s @
        [case q of
           Fulfilled response \<Rightarrow>
             ''User '' @ [CHR 0x22] @ name response @ [CHR 0x22] @ '' added successfully!''
         | Rejected e \<Rightarrow> ''Error: '' @
             js_or (err_response_message e)
               (if err_message e = ''Network Error''
                then ''Network Error: Check server connection.''
                else ''Failed to add user.'')]"
    if "trim (newUserName s) \<noteq> []"
    by (cases q)
       (simp_all add: handleAddUser_eq [OF that] final_def escapes_def
          fetchUsers_begin_def setter_defs)
  have add: "\<not> escapes (handleAddUser q s)"
  proof (cases "trim (newUserName s) = []")
    case True
    then show ?thesis by (simp add: handleAddUser_def escapes_def)
  next
    case False
    then show ?thesis using typed by blast
  qed
  from scores all none picked one blank typed add show ?thesis by blast
qed

text \<open>
  Every dialog open, Bo picked and a name typed in, and the service cannot be reached;
  then the same create request fulfilled; then a name of white space only.
\<close>

theorem confirm_handlers_dialogs_witness:
  "userToDelete dialogs_open = Some bo \<and> trim (newUserName dialogs_open) \<noteq> []
   \<and> isClearScoresModalOpen (final (handleClearAllScores (Rejected net_err) dialogs_open)) = False
   \<and> isClearUsersModalOpen (final (handleClearAllUsers (Rejected net_err) dialogs_open)) = False
   \<and> userToDelete (final (handleDeleteUser (Rejected net_err) dialogs_open)) = None
   \<and> messageLog (final (handleDeleteUser (Rejected net_err) dialogs_open))
       = [''Network Error: Check server connection.'']
   \<and> isAddUserModalOpen (final (handleAddUser (Rejected net_err) dialogs_open)) = True
   \<and> messageLog (final (handleAddUser (Rejected net_err) dialogs_open))
       = [''Error: Network Error: Check server connection.'']
   \<and> isAddUserModalOpen (final (handleAddUser (Fulfilled ann) dialogs_open)) = False
   \<and> userToDelete blank_name = None \<and> trim (newUserName blank_name) = []
   \<and> handleDeleteUser (Fulfilled ()) blank_name = Normal blank_name
   \<and> handleAddUser (Fulfilled ann) blank_name = Normal blank_name"
proof -
  have a: "userToDelete dialogs_open = Some bo"
    by (simp add: dialogs_open_def)
  have b: "trim (newUserName dialogs_open) \<noteq> []"
    by (simp add: dialogs_open_def trim_def js_whitespace_def)
  have c: "messageLog dialogs_open = []" "isAddUserModalOpen dialogs_open = True"
    by (simp_all add: dialogs_open_def initial_state_def)
  have d: "userToDelete blank_name = None"
    by (simp add: blank_name_def initial_state_def)
  have e: "trim (newUserName blank_name) = []"
    by (simp add: blank_name_def trim_def js_whitespace_def)
  show ?thesis
    using a b d e
      confirm_handlers_dialogs [of "Rejected net_err" dialogs_open bo "Rejected net_err"]
      confirm_handlers_dialogs [of "Rejected net_err" dialogs_open bo "Fulfilled ann"]
      confirm_handlers_dialogs [of "Fulfilled ()" blank_name bo "Fulfilled ann"]
    by (simp add: c net_err_def js_or_def)
qed

section \<open>The notification timer\<close>

lemma timer_inv_cases:
  "timer_inv s \<longleftrightarrow>
     (timers s = [] \<and> message s = [] \<and> effectCleanup s = None)
     \<or> (\<exists>h due. timers s = [(h, due)] \<and> message s \<noteq> [] \<and> effectCleanup s = Some h
           \<and> h < nextTimer s \<and> clock s < due)"
  by (auto simp: timer_inv_def split: list.splits)

lemma setMessage_timers_fresh:
  assumes "timer_inv s" and "t \<noteq> message s" and "t \<noteq> []"
  shows "timers (setMessage t s) = [(nextTimer s, clock s + 4000)]"
    and "effectCleanup (setMessage t s) = Some (nextTimer s)"
    and "nextTimer (setMessage t s) = nextTimer s + 1"
  using assms
  by (auto simp: timer_inv_cases setMessage_def message_effect_def message_effect_cleanup_def
      setTimeout_def clearTimeout_def Let_def)

lemma message_effect_cleanup_timers:
  assumes "timer_inv s"
  shows "timers (message_effect_cleanup (s\<lparr>messageLog := l, message := t\<rparr>)) = []"
  using assms
  by (auto simp: timer_inv_cases message_effect_cleanup_def clearTimeout_def)

lemma setMessage_inv: "timer_inv s \<Longrightarrow> timer_inv (setMessage t s)"
  by (auto simp: timer_inv_cases setMessage_def message_effect_def message_effect_cleanup_def
      setTimeout_def clearTimeout_def Let_def)

lemma advance_to_pending:
  assumes "timers s = [(h, due)]" and "t < due"
  shows "advance_to t s = s\<lparr>clock := max (clock s) t\<rparr>"
  using assms by (simp add: advance_to_def)

lemma advance_to_idle:
  assumes "timers s = []"
  shows "advance_to t s = s\<lparr>clock := max (clock s) t\<rparr>"
  using assms by (simp add: advance_to_def)

lemma advance_to_due:
  assumes "timer_inv s" and "timers s = [(h, due)]" and "due \<le> t"
  shows "message (advance_to t s) = []" and "timers (advance_to t s) = []"
    and "effectCleanup (advance_to t s) = None" and "clock (advance_to t s) = t"
    and "nextTimer (advance_to t s) = nextTimer s"
  using assms
  by (auto simp: advance_to_def fire_timer_def timer_inv_cases setMessage_def message_effect_def
      message_effect_cleanup_def clearTimeout_def Let_def)

lemma advance_to_inv:
  assumes inv: "timer_inv s"
  shows "timer_inv (advance_to t s)"
proof -
  from inv consider "timers s = []" | h due where "timers s = [(h, due)]"
    unfolding timer_inv_cases by blast
  then show ?thesis
  proof cases
    case 1
    then show ?thesis using inv by (simp add: advance_to_idle timer_inv_cases)
  next
    case 2
    show ?thesis
    proof (cases "t < due")
      case True
      then show ?thesis using inv 2 by (auto simp: advance_to_pending timer_inv_cases)
    next
      case False
      then have "due \<le> t" by simp
      from advance_to_due [OF inv 2 this] show ?thesis by (simp add: timer_inv_cases)
    qed
  qed
qed

text \<open>
  The invariant holds after the first render, and every handler, the list fetch and the
  passing of time keep it: in every state the component reaches at most one timer is live.
\<close>

lemma timer_inv_updates [simp]:
  "timer_inv (s\<lparr>users := a\<rparr>) = timer_inv s"
  "timer_inv (s\<lparr>selectedUserId := b\<rparr>) = timer_inv s"
  "timer_inv (s\<lparr>newUserName := c\<rparr>) = timer_inv s"
  "timer_inv (s\<lparr>isLoading := d\<rparr>) = timer_inv s"
  "timer_inv (s\<lparr>error := e\<rparr>) = timer_inv s"
  "timer_inv (s\<lparr>isClearScoresModalOpen := f\<rparr>) = timer_inv s"
  "timer_inv (s\<lparr>isClearUsersModalOpen := g\<rparr>) = timer_inv s"
  "timer_inv (s\<lparr>isAddUserModalOpen := h\<rparr>) = timer_inv s"
  "timer_inv (s\<lparr>isDeleteUserModalOpen := i\<rparr>) = timer_inv s"
  "timer_inv (s\<lparr>userToDelete := j\<rparr>) = timer_inv s"
  "timer_inv (s\<lparr>isActionsMenuOpen := k\<rparr>) = timer_inv s"
  "timer_inv (s\<lparr>requests := l\<rparr>) = timer_inv s"
  "timer_inv (s\<lparr>console := m\<rparr>) = timer_inv s"
  "timer_inv (s\<lparr>messageLog := n\<rparr>) = timer_inv s"
  by (simp_all add: timer_inv_cases)

lemma timer_inv_initial: "timer_inv initial_state"
  by (simp add: timer_inv_def initial_state_def)

lemma timer_inv_fetchUsers:
  "timer_inv s \<Longrightarrow> timer_inv (fetchUsers_begin s)"
  "timer_inv s \<Longrightarrow> timer_inv (final (fetchUsers_settle p s))"
  by (cases p; simp add: fetchUsers_begin_def fetchUsers_settle_Fulfilled fetchUsers_settle_Rejected
      final_def setter_defs)+

lemma timer_inv_handlers:
  assumes "timer_inv s"
  shows "timer_inv (final (handleGenerateTenUsers rnd outcome s))"
    and "timer_inv (final (handleAddUser q s))"
    and "timer_inv (final (handleClaimPoints beyond r s))"
    and "timer_inv (final (handleClearAllScores p s))"
    and "timer_inv (final (handleClearAllUsers p s))"
    and "timer_inv (final (handleDeleteUser p s))"
    and "timer_inv (select_onChange v s)"
proof -
  have msg: "timer_inv (setMessage t x)" if "timer_inv x" for t x
    using that by (rule setMessage_inv)
  show "timer_inv (final (handleAddUser q s))"
    using assms
    by (cases q) (simp_all add: handleAddUser_def block_defs Let_def fetchUsers_begin_def
        setter_defs msg)
  show "timer_inv (final (handleClaimPoints beyond r s))"
    using assms
    by (cases r) (simp_all add: handleClaimPoints_def block_defs Let_def fetchUsers_begin_def
        setter_defs msg)
  show "timer_inv (final (handleClearAllScores p s))"
    using assms
    by (cases p) (simp_all add: handleClearAllScores_eq final_def fetchUsers_begin_def
        setter_defs msg)
  show "timer_inv (final (handleClearAllUsers p s))"
    using assms
    by (cases p) (simp_all add: handleClearAllUsers_eq final_def fetchUsers_begin_def
        setter_defs msg)
  show "timer_inv (final (handleDeleteUser p s))"
    using assms
    by (cases p; cases "userToDelete s")
       (simp_all add: handleDeleteUser_def block_defs Let_def fetchUsers_begin_def
        setter_defs msg)
  show "timer_inv (select_onChange v s)"
    using assms by (simp add: select_onChange_def setter_defs)
  show "timer_inv (final (handleGenerateTenUsers rnd outcome s))"
    using assms
    unfolding handleGenerateTenUsers_def
    by (simp add: fold_tally Promise_allSettled_def block_defs Let_def
        send_random_users_eq fetchUsers_begin_def setter_defs msg del: upt_rec_numeral)
qed

lemma timer_inv_at_most_one: "timer_inv s \<Longrightarrow> length (timers s) \<le> 1"
  by (auto simp: timer_inv_cases)

lemma timer_inv_fresh_handle: "timer_inv s \<Longrightarrow> nextTimer s \<notin> fst ` set (timers s)"
  by (auto simp: timer_inv_cases)

lemma advance_to_clock:
  assumes "timer_inv s"
  shows "clock (advance_to t s) = max (clock s) t"
    and "nextTimer (advance_to t s) = nextTimer s"
proof -
  from assms consider "timers s = []" | h due where "timers s = [(h, due)]" "clock s < due"
    unfolding timer_inv_cases by blast
  then have "clock (advance_to t s) = max (clock s) t \<and> nextTimer (advance_to t s) = nextTimer s"
  proof cases
    case 1
    then show ?thesis by (simp add: advance_to_idle)
  next
    case 2
    show ?thesis
    proof (cases "t < due")
      case True
      then show ?thesis using 2 by (simp add: advance_to_pending)
    next
      case False
      then have "due \<le> t" by simp
      from advance_to_due(4,5) [OF assms 2(1) this] 2(2) this show ?thesis by simp
    qed
  qed
  then show "clock (advance_to t s) = max (clock s) t"
    and "nextTimer (advance_to t s) = nextTimer s"
    by simp_all
qed

lemma advance_to_message:
  assumes "timer_inv s"
  shows "message (advance_to t s) = message s \<or> message (advance_to t s) = []"
proof -
  from assms consider "timers s = []" | h due where "timers s = [(h, due)]"
    unfolding timer_inv_cases by blast
  then show ?thesis
  proof cases
    case 1
    then show ?thesis by (simp add: advance_to_idle)
  next
    case 2
    show ?thesis
    proof (cases "t < due")
      case True
      then show ?thesis using 2 by (simp add: advance_to_pending)
    next
      case False
      then have "due \<le> t" by simp
      from advance_to_due(1) [OF assms 2 this] show ?thesis by simp
    qed
  qed
qed

text \<open>
  Claim C9 does not hold as stated.  Ann is selected and the claim request fails twice,
  3 seconds apart, so the same failure text is set twice.  The second setting changes no
  dependency of the effect: the timer of the first setting stays live, no second timer
  starts, and 4 seconds after the first setting the message is cleared, one second after
  it was set again.
\<close>

theorem notification_same_text_keeps_timer:
  "messageLog (final (handleClaimPoints (\<lambda>i. []) (Rejected srv_err)
      (advance_to 3000 (final (handleClaimPoints (\<lambda>i. []) (Rejected srv_err) ann_selected)))))
     = [''Failed to claim points.'', ''Failed to claim points.'']
   \<and> timers (final (handleClaimPoints (\<lambda>i. []) (Rejected srv_err) ann_selected)) = [(0, 4000)]
   \<and> timers (final (handleClaimPoints (\<lambda>i. []) (Rejected srv_err)
      (advance_to 3000 (final (handleClaimPoints (\<lambda>i. []) (Rejected srv_err) ann_selected)))))
     = [(0, 4000)]
   \<and> message (advance_to 4000 (final (handleClaimPoints (\<lambda>i. []) (Rejected srv_err)
      (advance_to 3000 (final (handleClaimPoints (\<lambda>i. []) (Rejected srv_err) ann_selected))))))
     = []"
  by (simp add: handleClaimPoints_def block_defs setter_defs ann_selected_def initial_state_def
      srv_err_def setMessage_def message_effect_def message_effect_cleanup_def
      setTimeout_def clearTimeout_def advance_to_def fire_timer_def Let_def)

text \<open>
  Claim C9, amended.  Start in a state between events (\<open>timer_inv\<close>) at time \<open>clock s0\<close>.
  A message \<open>m1\<close>, not empty, is set; then, at a time \<open>t2\<close> less than 4 seconds later, a
  message \<open>m2\<close>, not empty.  At most one timer is live after the first setting, when the
  second setting happens, and after it.  When the first setting changes the message shown,
  it leaves one live timer, due 4 seconds later, which is still the only one when the second
  setting happens.

  When \<open>m2\<close> differs from \<open>m1\<close>: the second setting first cancels the pending timer (after
  the cleanup no timer is live) and then starts its own, under a handle no live timer had,
  due 4 seconds after \<open>t2\<close>; it is then the only live timer.  At every time before that, so
  also when the first timer would have come due, the message shown is \<open>m2\<close>; 4 seconds
  after \<open>t2\<close> it is cleared and no timer is live.

  Setting the text that is shown changes nothing but the record of the calls: no timer is
  cancelled and none is started.  So when \<open>m2\<close> is \<open>m1\<close> and the first setting started a
  timer, that timer stays the only one, the message is shown until it comes due, and it is
  cleared then, 4 seconds after the first setting.
\<close>

theorem notification_timer_replaced:
  assumes "timer_inv s0" and "m1 \<noteq> []" and "m2 \<noteq> []"
    and "clock s0 \<le> t2" and "t2 < clock s0 + 4000"
  shows "let s1 = setMessage m1 s0;
             s1' = advance_to t2 s1;
             s2 = setMessage m2 s1'
         in length (timers s1) \<le> 1 \<and> length (timers s1') \<le> 1 \<and> length (timers s2) \<le> 1
          \<and> (m1 \<noteq> message s0 \<longrightarrow>
                timers s1 = [(nextTimer s0, clock s0 + 4000)]
                \<and> timers s1' = [(nextTimer s0, clock s0 + 4000)] \<and> message s1' = m1)
          \<and> (m2 \<noteq> m1 \<longrightarrow>
                timers (message_effect_cleanup
                  (s1'\<lparr>messageLog := messageLog s1' @ [m2], message := m2\<rparr>)) = []
                \<and> nextTimer s1' \<notin> fst ` set (timers s1')
                \<and> timers s2 = [(nextTimer s1', t2 + 4000)]
                \<and> (\<forall>t < t2 + 4000. message (advance_to t s2) = m2
                      \<and> timers (advance_to t s2) = [(nextTimer s1', t2 + 4000)])
                \<and> message (advance_to (t2 + 4000) s2) = []
                \<and> timers (advance_to (t2 + 4000) s2) = [])
          \<and> (m2 = message s1' \<longrightarrow> s2 = s1'\<lparr>messageLog := messageLog s1' @ [m2]\<rparr>)
          \<and> (m2 = m1 \<and> m1 \<noteq> message s0 \<longrightarrow>
                timers s2 = [(nextTimer s0, clock s0 + 4000)]
                \<and> (\<forall>t < clock s0 + 4000. message (advance_to t s2) = m1
                      \<and> timers (advance_to t s2) = [(nextTimer s0, clock s0 + 4000)])
                \<and> message (advance_to (clock s0 + 4000) s2) = []
                \<and> timers (advance_to (clock s0 + 4000) s2) = [])"
proof -
  define s1 where "s1 = setMessage m1 s0"
  define s1' where "s1' = advance_to t2 s1"
  define s2 where "s2 = setMessage m2 s1'"
  have inv1: "timer_inv s1"
    unfolding s1_def using assms(1) by (rule setMessage_inv)
  have inv1': "timer_inv s1'"
    unfolding s1'_def using inv1 by (rule advance_to_inv)
  have inv2: "timer_inv s2"
    unfolding s2_def using inv1' by (rule setMessage_inv)
  have c1: "clock s1 = clock s0" and m1: "message s1 = m1"
    by (simp_all add: s1_def)
  have c1': "clock s1' = t2"
    unfolding s1'_def using advance_to_clock(1) [OF inv1, of t2] c1 assms(4) by simp
  have m1'_cases: "message s1' = m1 \<or> message s1' = []"
    unfolding s1'_def using advance_to_message [OF inv1, of t2] m1 by simp
  have one: "length (timers s1) \<le> 1 \<and> length (timers s1') \<le> 1 \<and> length (timers s2) \<le> 1"
    using timer_inv_at_most_one [OF inv1] timer_inv_at_most_one [OF inv1']
      timer_inv_at_most_one [OF inv2] by blast
  have first: "timers s1 = [(nextTimer s0, clock s0 + 4000)]
      \<and> timers s1' = [(nextTimer s0, clock s0 + 4000)] \<and> message s1' = m1"
    if new: "m1 \<noteq> message s0"
  proof -
    have t1: "timers s1 = [(nextTimer s0, clock s0 + 4000)]"
      unfolding s1_def using assms(1) new assms(2) by (rule setMessage_timers_fresh(1))
    have e1: "s1' = s1\<lparr>clock := max (clock s1) t2\<rparr>"
      unfolding s1'_def using t1 assms(5) by (simp add: advance_to_pending)
    have "timers s1' = timers s1" and "message s1' = message s1"
      by (simp_all add: e1)
    then show ?thesis using t1 m1 by simp
  qed
  have differ: "timers (message_effect_cleanup
        (s1'\<lparr>messageLog := messageLog s1' @ [m2], message := m2\<rparr>)) = []
      \<and> nextTimer s1' \<notin> fst ` set (timers s1')
      \<and> timers s2 = [(nextTimer s1', t2 + 4000)]
      \<and> (\<forall>t < t2 + 4000. message (advance_to t s2) = m2
            \<and> timers (advance_to t s2) = [(nextTimer s1', t2 + 4000)])
      \<and> message (advance_to (t2 + 4000) s2) = []
      \<and> timers (advance_to (t2 + 4000) s2) = []"
    if ne: "m2 \<noteq> m1"
  proof -
    have shown: "m2 \<noteq> message s1'"
      using m1'_cases ne assms(3) by auto
    have cl: "timers (message_effect_cleanup
        (s1'\<lparr>messageLog := messageLog s1' @ [m2], message := m2\<rparr>)) = []"
      using inv1' by (rule message_effect_cleanup_timers)
    have t2': "timers s2 = [(nextTimer s1', t2 + 4000)]"
      unfolding s2_def using setMessage_timers_fresh(1) [OF inv1' shown assms(3)] c1' by simp
    have m2': "message s2 = m2"
      by (simp add: s2_def)
    have live: "message (advance_to t s2) = m2
        \<and> timers (advance_to t s2) = [(nextTimer s1', t2 + 4000)]" if "t < t2 + 4000" for t
      using advance_to_pending [OF t2' that] t2' m2' by simp
    have fin: "message (advance_to (t2 + 4000) s2) = []"
        "timers (advance_to (t2 + 4000) s2) = []"
      using advance_to_due [OF inv2 t2', of "t2 + 4000"] by simp_all
    from cl timer_inv_fresh_handle [OF inv1'] t2' live fin show ?thesis by blast
  qed
  have same_shown: "s2 = s1'\<lparr>messageLog := messageLog s1' @ [m2]\<rparr>" if "m2 = message s1'"
    unfolding s2_def using that by (simp add: setMessage_def)
  have same: "timers s2 = [(nextTimer s0, clock s0 + 4000)]
      \<and> (\<forall>t < clock s0 + 4000. message (advance_to t s2) = m1
            \<and> timers (advance_to t s2) = [(nextTimer s0, clock s0 + 4000)])
      \<and> message (advance_to (clock s0 + 4000) s2) = []
      \<and> timers (advance_to (clock s0 + 4000) s2) = []"
    if eq: "m2 = m1" and new: "m1 \<noteq> message s0"
  proof -
    note f = first [OF new]
    have "m2 = message s1'"
      using f eq by simp
    then have e2: "s2 = s1'\<lparr>messageLog := messageLog s1' @ [m2]\<rparr>"
      by (rule same_shown)
    have "timers s2 = timers s1'" and "message s2 = message s1'"
      by (simp_all add: e2)
    then have t2': "timers s2 = [(nextTimer s0, clock s0 + 4000)]" and m2': "message s2 = m1"
      using f by simp_all
    have live: "message (advance_to t s2) = m1
        \<and> timers (advance_to t s2) = [(nextTimer s0, clock s0 + 4000)]"
      if "t < clock s0 + 4000" for t
      using advance_to_pending [OF t2' that] t2' m2' by simp
    have fin: "message (advance_to (clock s0 + 4000) s2) = []"
        "timers (advance_to (clock s0 + 4000) s2) = []"
      using advance_to_due [OF inv2 t2', of "clock s0 + 4000"] by simp_all
    from t2' live fin show ?thesis by blast
  qed
  show ?thesis
    unfolding Let_def s1_def [symmetric] s1'_def [symmetric] s2_def [symmetric]
    using one first differ same_shown same by blast
qed

text \<open>
  From the first render: the reset succeeds at time 0, the delete-all at 3 seconds.  At 4
  seconds the second text is shown; at 7 seconds it is cleared.  And the reset succeeds
  twice, at time 0 and at 3 seconds: at 4 seconds its text is cleared.
\<close>

theorem notification_timer_replaced_witness:
  "timer_inv initial_state \<and> clock initial_state \<le> 3000 \<and> 3000 < clock initial_state + 4000
   \<and> message initial_state \<noteq> ''All scores have been cleared successfully.''
   \<and> timers (setMessage ''All users have been deleted.''
        (advance_to 3000 (setMessage ''All scores have been cleared successfully.'' initial_state)))
       = [(1, 7000)]
   \<and> message (advance_to 4000 (setMessage ''All users have been deleted.''
        (advance_to 3000 (setMessage ''All scores have been cleared successfully.'' initial_state))))
       = ''All users have been deleted.''
   \<and> message (advance_to 7000 (setMessage ''All users have been deleted.''
        (advance_to 3000 (setMessage ''All scores have been cleared successfully.'' initial_state))))
       = []
   \<and> timers (setMessage ''All scores have been cleared successfully.''
        (advance_to 3000 (setMessage ''All scores have been cleared successfully.'' initial_state)))
       = [(0, 4000)]
   \<and> message (advance_to 4000 (setMessage ''All scores have been cleared successfully.''
        (advance_to 3000 (setMessage ''All scores have been cleared successfully.'' initial_state))))
       = []"
proof -
  define m1 where "m1 = ''All scores have been cleared successfully.''"
  define m2 where "m2 = ''All users have been deleted.''"
  define s1' where "s1' = advance_to 3000 (setMessage m1 initial_state)"
  have a: "timer_inv initial_state"
    by (simp add: timer_inv_def initial_state_def)
  have b: "m1 \<noteq> []" and c: "m2 \<noteq> []" and e: "m2 \<noteq> m1"
    by (simp_all add: m1_def m2_def)
  have d: "m1 \<noteq> message initial_state" and d': "message initial_state \<noteq> m1"
    by (simp_all add: initial_state_def m1_def)
  have f: "clock initial_state \<le> 3000" and g: "3000 < clock initial_state + 4000"
    by (simp_all add: initial_state_def)
  have n: "nextTimer initial_state = 0" "clock initial_state = 0"
    by (simp_all add: initial_state_def)
  note differ = notification_timer_replaced
    [OF a b c f g, unfolded Let_def, folded s1'_def]
  note same = notification_timer_replaced
    [OF a b b f g, unfolded Let_def, folded s1'_def]
  from differ e have t2: "timers (setMessage m2 s1') = [(nextTimer s1', 3000 + 4000)]"
    by blast
  from differ e have
    live: "\<forall>t < 3000 + 4000. message (advance_to t (setMessage m2 s1')) = m2
        \<and> timers (advance_to t (setMessage m2 s1')) = [(nextTimer s1', 3000 + 4000)]"
    by blast
  from differ e have fin: "message (advance_to (3000 + 4000) (setMessage m2 s1')) = []"
    by blast
  from same d have
    kept: "timers (setMessage m1 s1') = [(nextTimer initial_state, clock initial_state + 4000)]"
    by blast
  from same d have
    gone: "message (advance_to (clock initial_state + 4000) (setMessage m1 s1')) = []"
    by blast
  have nt: "nextTimer s1' = 1"
    unfolding s1'_def
    using advance_to_clock(2) [OF setMessage_inv [OF a], of 3000 m1]
      setMessage_timers_fresh(3) [OF a d b] n by simp
  have "(4000::nat) < 3000 + 4000"
    by simp
  with live have shown: "message (advance_to 4000 (setMessage m2 s1')) = m2"
    by blast
  have t2n: "timers (setMessage m2 s1') = [(1, 7000)]"
    using t2 nt by simp
  have fin7: "message (advance_to 7000 (setMessage m2 s1')) = []"
    using fin by simp
  have kept0: "timers (setMessage m1 s1') = [(0, 4000)]"
    using kept n by simp
  have gone4: "message (advance_to 4000 (setMessage m1 s1')) = []"
    using gone n by simp
  from a f g d' t2n shown fin7 kept0 gone4 show ?thesis
    unfolding s1'_def m1_def m2_def by blast
qed

end
